theory Spec2Isabelle
  imports Main "HOL-Library.Word" "HOL-Library.AList"
begin

text \<open>
  The node modal of the JSON visualiser (\<open>features/modals/NodeModal/index.tsx\<close>):
  the helpers \<open>normalizeNodeData\<close>, \<open>jsonPathToString\<close> and
  \<open>updateJsonAtPath\<close>, and the handlers of the component, over a model of the
  strings, objects and JSON functions of JavaScript that they use.
\<close>

section \<open>Strings\<close>

text \<open>
  A JavaScript string is a sequence of 16-bit code units.  \<open>js\<close> embeds a literal
  of Latin-1 characters.
\<close>

type_synonym jsstring = "16 word list"

definition js :: "string \<Rightarrow> jsstring" where
  "js s = map of_char s"

text \<open>
  \<open>Array.prototype.join\<close> on strings: the elements separated by \<open>sep\<close>.
\<close>

fun join :: "jsstring \<Rightarrow> jsstring list \<Rightarrow> jsstring" where
  "join sep [] = []"
| "join sep [x] = x"
| "join sep (x # y # ys) = x @ sep @ join sep (y # ys)"

text \<open>Decimal digits: the numeral of a natural number, and the value of a numeral.\<close>

definition digit_unit :: "nat \<Rightarrow> 16 word" where
  "digit_unit d = of_nat (48 + d)"

fun decimal :: "nat \<Rightarrow> jsstring" where
  "decimal n = (if n < 10 then [digit_unit n] else decimal (n div 10) @ [digit_unit (n mod 10)])"

declare decimal.simps [simp del]

definition is_digit :: "16 word \<Rightarrow> bool" where
  "is_digit c = (48 \<le> c \<and> c \<le> 57)"

definition digits_value :: "jsstring \<Rightarrow> nat" where
  "digits_value ds = foldl (\<lambda>a c. 10 * a + (unat c - 48)) 0 ds"

section \<open>JSON values and objects\<close>

text \<open>
  The values that \<open>JSON.parse\<close> produces.  An object is the list of its own
  properties in the order of their creation, with distinct keys; an array is the list
  of its elements.  The Number type is a parameter \<open>'n\<close>.
\<close>

datatype 'n json =
    JNull
  | JBool bool
  | JNum 'n
  | JStr jsstring
  | JArr "'n json list"
  | JObj "(jsstring \<times> 'n json) list"

text \<open>
  An array index is a property key that is the decimal numeral, without leading
  zeros, of a number below \<open>2^32 - 1\<close>.
\<close>

definition array_index :: "jsstring \<Rightarrow> nat option" where
  "array_index k =
     (if k \<noteq> [] \<and> list_all is_digit k \<and> (length k = 1 \<or> hd k \<noteq> 48)
         \<and> digits_value k < 2 ^ 32 - 1
      then Some (digits_value k) else None)"

text \<open>
  The order in which the own properties of an object are enumerated
  (\<open>Object.entries\<close>, \<open>JSON.stringify\<close>, the spread of an object): array indices in
  ascending order, then the other keys in the order of their creation.
\<close>

definition own_entries :: "(jsstring \<times> 'a) list \<Rightarrow> (jsstring \<times> 'a) list" where
  "own_entries ms =
     sort_key (\<lambda>(k, v). the (array_index k)) (filter (\<lambda>(k, v). array_index k \<noteq> None) ms)
     @ filter (\<lambda>(k, v). array_index k = None) ms"

section \<open>The host\<close>

datatype js_error = SyntaxError | TypeError | RangeError

text \<open>
  The built-in prototypes from which the values of a parsed document inherit.
\<close>

datatype proto =
    ObjectPrototype | ArrayPrototype | StringPrototype | NumberPrototype | BooleanPrototype

text \<open>
  What the code takes from its host is a parameter of the development.

  For numbers: the value of a JSON number token, \<open>Number::toString\<close>, the finiteness
  test of \<open>JSON.stringify\<close>, the number that a \<open>length\<close> property reads as, and the
  conversion applied when a string is assigned to the \<open>length\<close> of an array
  (\<open>None\<close>: the host raises RangeError).

  For the prototype chain: a type \<open>'h\<close> of the values that are not part of a parsed
  document (built-in functions, the prototype objects, whatever was stored on them),
  and
  \<^item> \<open>inherited p key\<close>, the value that reading \<open>key\<close> finds on the chain that starts
    at the prototype \<open>p\<close> (\<open>None\<close>: \<open>undefined\<close>);
  \<^item> \<open>hostGet h key\<close>, reading a property of such a value (it throws when the value
    is \<open>null\<close>, or when a getter throws);
  \<^item> \<open>hostIsObject h\<close>, the test \<open>typeof h === "object" && h !== null\<close>;
  \<^item> \<open>hostSet h key value\<close>, the assignment \<open>h[key] = value\<close> of a string to a
    property of such a value (\<open>Some e\<close>: it throws \<open>e\<close>; whether it throws is
    taken not to depend on the assignments made before it);
  \<^item> \<open>holeValue i\<close>, the JSON value that \<open>JSON.stringify\<close> writes for the missing
    element \<open>i\<close> of an array (\<open>null\<close>, unless the prototypes hold that index).

  One inherited property is fixed by the model, as in every standard host: the accessor
  \<open>__proto__\<close> of \<open>Object.prototype\<close>.  Assigning to \<open>__proto__\<close> on an object or
  array that has no own property of that name calls its setter, which creates no
  property: it ignores a value that is neither an object nor \<open>null\<close>, and for \<open>null\<close>
  removes the prototype of the receiver.  Any other assignment to an object of the
  document, or to an object that the component creates, creates or overwrites an own
  property: the prototypes hold no other setter and no read-only property.  No
  prototype holds a callable \<open>toJSON\<close>.
\<close>

record ('n, 'h) host =
  toNumber :: "jsstring \<Rightarrow> 'n"
  numberToString :: "'n \<Rightarrow> jsstring"
  isFinite :: "'n \<Rightarrow> bool"
  lengthNumber :: "nat \<Rightarrow> 'n"
  toArrayLength :: "jsstring \<Rightarrow> nat option"
  inherited :: "proto \<Rightarrow> jsstring \<Rightarrow> 'h option"
  hostGet :: "'h \<Rightarrow> jsstring \<Rightarrow> js_error + 'h option"
  hostIsObject :: "'h \<Rightarrow> bool"
  hostSet :: "'h \<Rightarrow> jsstring \<Rightarrow> jsstring \<Rightarrow> js_error option"
  holeValue :: "nat \<Rightarrow> 'n json"

definition proto_key :: jsstring where
  "proto_key = js ''__proto__''"

text \<open>
  \<open>obj[key] = value\<close> on an object whose prototype is \<open>Object.prototype\<close>, for a
  value that is neither an object nor \<open>null\<close>: the own property is overwritten in
  place or added at the end; \<open>__proto__\<close>, when it is not an own property, is left to
  the inherited setter.
\<close>

definition assign_member :: "(jsstring \<times> 'a) list \<Rightarrow> jsstring \<Rightarrow> 'a \<Rightarrow> (jsstring \<times> 'a) list" where
  "assign_member ms k v =
     (if k = proto_key \<and> map_of ms k = None then ms else AList.update k v ms)"

section \<open>The path of a node\<close>

text \<open>
  \<open>NodeData["path"]\<close>: a sequence of segments, each a string or a number.
\<close>

datatype 'n segment = SegNum 'n | SegStr jsstring

text \<open>
  \<open>ToString\<close> of a segment, as \<open>join\<close> and property access apply it.
\<close>

fun segment_text :: "('n, 'h) host \<Rightarrow> 'n segment \<Rightarrow> jsstring" where
  "segment_text N (SegNum n) = numberToString N n"
| "segment_text N (SegStr s) = s"

text \<open>
  The callback of \<open>path.map\<close> in \<open>jsonPathToString\<close>: a number stays a number, a
  string is wrapped in double quotes.
\<close>

fun quote_segment :: "'n segment \<Rightarrow> 'n segment" where
  "quote_segment (SegNum n) = SegNum n"
| "quote_segment (SegStr s) = SegStr (js ''\"'' @ s @ js ''\"'')"

definition jsonPathToString :: "('n, 'h) host \<Rightarrow> 'n segment list option \<Rightarrow> jsstring" where
  "jsonPathToString N path =
     (case path of
        None \<Rightarrow> js ''$''
      | Some p \<Rightarrow>
          if length p = 0 then js ''$''
          else (let segments = map quote_segment p
                in js ''$['' @ join (js '']['') (map (segment_text N) segments) @ js '']''))"

text \<open>
  The reference definition of the specification: \<open>$\<close> followed by one bracketed
  group per segment, a number bare and a string between double quotes.
\<close>

fun bracketed :: "('n, 'h) host \<Rightarrow> 'n segment \<Rightarrow> jsstring" where
  "bracketed N (SegNum n) = js ''['' @ numberToString N n @ js '']''"
| "bracketed N (SegStr s) = js ''['' @ js ''\"'' @ s @ js ''\"'' @ js '']''"

definition jsonPathToString_spec :: "('n, 'h) host \<Rightarrow> 'n segment list option \<Rightarrow> jsstring" where
  "jsonPathToString_spec N path =
     (case path of
        None \<Rightarrow> js ''$''
      | Some p \<Rightarrow> if p = [] then js ''$'' else js ''$'' @ concat (map (bracketed N) p))"

section \<open>JSON.stringify with an indent of two spaces\<close>

definition hex_unit :: "nat \<Rightarrow> 16 word" where
  "hex_unit d = (if d < 10 then of_nat (48 + d) else of_nat (87 + d))"

text \<open>The escape \<open>\uXXXX\<close> of a code unit, in lower-case hexadecimal.\<close>

definition unicode_escape :: "16 word \<Rightarrow> jsstring" where
  "unicode_escape c =
     (let n = unat c
      in [92, 117, hex_unit (n div 4096), hex_unit (n div 256 mod 16),
          hex_unit (n div 16 mod 16), hex_unit (n mod 16)])"

definition is_high_surrogate :: "16 word \<Rightarrow> bool" where
  "is_high_surrogate c = (0xD800 \<le> c \<and> c \<le> 0xDBFF)"

definition is_low_surrogate :: "16 word \<Rightarrow> bool" where
  "is_low_surrogate c = (0xDC00 \<le> c \<and> c \<le> 0xDFFF)"

text \<open>
  One code unit inside a quoted string: the two-character escapes of backspace, tab,
  line feed, form feed, carriage return, the double quote and the backslash; \<open>\uXXXX\<close>
  for the other control characters and for a surrogate that stands alone.
\<close>

definition quote_unit :: "16 word \<Rightarrow> jsstring" where
  "quote_unit c =
     (if c = 8 then [92, 98]
      else if c = 9 then [92, 116]
      else if c = 10 then [92, 110]
      else if c = 12 then [92, 102]
      else if c = 13 then [92, 114]
      else if c = 34 then [92, 34]
      else if c = 92 then [92, 92]
      else if c < 32 \<or> is_high_surrogate c \<or> is_low_surrogate c then unicode_escape c
      else [c])"

fun quote_units :: "jsstring \<Rightarrow> jsstring" where
  "quote_units [] = []"
| "quote_units [c] = quote_unit c"
| "quote_units (c # d # ds) =
     (if is_high_surrogate c \<and> is_low_surrogate d then c # d # quote_units ds
      else quote_unit c @ quote_units (d # ds))"

definition quote :: "jsstring \<Rightarrow> jsstring" where
  "quote s = js ''\"'' @ quote_units s @ js ''\"''"

definition gap :: jsstring where
  "gap = js ''  ''"

text \<open>
  A non-empty array or object: the opening bracket, each part on a line of its own at
  the deeper indent, separated by commas, and the closing bracket at the outer indent.
\<close>

definition block :: "jsstring \<Rightarrow> jsstring \<Rightarrow> jsstring \<Rightarrow> jsstring list \<Rightarrow> jsstring" where
  "block opening closing indent parts =
     opening @ js ''\<newline>'' @ (indent @ gap)
     @ join (js '','' @ js ''\<newline>'' @ (indent @ gap)) parts
     @ js ''\<newline>'' @ indent @ closing"

fun serialize :: "('n, 'h) host \<Rightarrow> jsstring \<Rightarrow> 'n json \<Rightarrow> jsstring" where
  "serialize N indent JNull = js ''null''"
| "serialize N indent (JBool b) = (if b then js ''true'' else js ''false'')"
| "serialize N indent (JNum n) = (if isFinite N n then numberToString N n else js ''null'')"
| "serialize N indent (JStr s) = quote s"
| "serialize N indent (JArr xs) =
     (if xs = [] then js ''[]''
      else block (js ''['') (js '']'') indent (map (serialize N (indent @ gap)) xs))"
| "serialize N indent (JObj ms) =
     (if ms = [] then js ''{}''
      else block (js ''{'') (js ''}'') indent
             (map (\<lambda>(k, text). quote k @ js '': '' @ text)
                (own_entries (map (\<lambda>(k, v). (k, serialize N (indent @ gap) v)) ms))))"

definition JSON_stringify :: "('n, 'h) host \<Rightarrow> 'n json \<Rightarrow> jsstring" where
  "JSON_stringify N v = serialize N [] v"

section \<open>JSON.parse\<close>

datatype token =
    TLBrace | TRBrace | TLBracket | TRBracket | TColon | TComma
  | TString jsstring
  | TNumber jsstring
  | TTrue | TFalse | TNull

text \<open>
  The lexer reads one code unit at a time.  The states of a number follow the grammar
  \<open>-? (0 | [1-9][0-9]*) (. [0-9]+)? ([eE] [+-]? [0-9]+)?\<close>.
\<close>

datatype numstate =
    NMinus | NZero | NInt | NDot | NFrac | NExp | NExpSign | NExpDigits

datatype lexstate =
    Idle
  | InString jsstring
  | InEscape jsstring
  | InUnicode jsstring "nat list"
  | InNumber numstate jsstring
  | InLiteral token jsstring

definition is_whitespace :: "16 word \<Rightarrow> bool" where
  "is_whitespace c = (c = 9 \<or> c = 10 \<or> c = 13 \<or> c = 32)"

definition idle_step :: "16 word \<Rightarrow> (lexstate \<times> token list) option" where
  "idle_step c =
     (if is_whitespace c then Some (Idle, [])
      else if c = 123 then Some (Idle, [TLBrace])
      else if c = 125 then Some (Idle, [TRBrace])
      else if c = 91 then Some (Idle, [TLBracket])
      else if c = 93 then Some (Idle, [TRBracket])
      else if c = 58 then Some (Idle, [TColon])
      else if c = 44 then Some (Idle, [TComma])
      else if c = 34 then Some (InString [], [])
      else if c = 45 then Some (InNumber NMinus [c], [])
      else if c = 48 then Some (InNumber NZero [c], [])
      else if is_digit c then Some (InNumber NInt [c], [])
      else if c = 116 then Some (InLiteral TTrue (js ''rue''), [])
      else if c = 102 then Some (InLiteral TFalse (js ''alse''), [])
      else if c = 110 then Some (InLiteral TNull (js ''ull''), [])
      else None)"

definition string_step :: "jsstring \<Rightarrow> 16 word \<Rightarrow> (lexstate \<times> token list) option" where
  "string_step acc c =
     (if c = 34 then Some (Idle, [TString acc])
      else if c = 92 then Some (InEscape acc, [])
      else if c < 32 then None
      else Some (InString (acc @ [c]), []))"

definition escape_step :: "jsstring \<Rightarrow> 16 word \<Rightarrow> (lexstate \<times> token list) option" where
  "escape_step acc c =
     (if c = 34 \<or> c = 92 \<or> c = 47 then Some (InString (acc @ [c]), [])
      else if c = 98 then Some (InString (acc @ [8]), [])
      else if c = 102 then Some (InString (acc @ [12]), [])
      else if c = 110 then Some (InString (acc @ [10]), [])
      else if c = 114 then Some (InString (acc @ [13]), [])
      else if c = 116 then Some (InString (acc @ [9]), [])
      else if c = 117 then Some (InUnicode acc [], [])
      else None)"

definition hex_value :: "16 word \<Rightarrow> nat option" where
  "hex_value c =
     (if 48 \<le> c \<and> c \<le> 57 then Some (unat c - 48)
      else if 65 \<le> c \<and> c \<le> 70 then Some (unat c - 55)
      else if 97 \<le> c \<and> c \<le> 102 then Some (unat c - 87)
      else None)"

definition unicode_step ::
  "jsstring \<Rightarrow> nat list \<Rightarrow> 16 word \<Rightarrow> (lexstate \<times> token list) option" where
  "unicode_step acc ds c =
     (case hex_value c of
        None \<Rightarrow> None
      | Some d \<Rightarrow>
          if length ds = 3
          then Some (InString (acc @ [of_nat (foldl (\<lambda>a h. 16 * a + h) 0 (ds @ [d]))]), [])
          else Some (InUnicode acc (ds @ [d]), []))"

text \<open>A number token ends before a code unit that cannot continue it.\<close>

definition end_number :: "jsstring \<Rightarrow> 16 word \<Rightarrow> (lexstate \<times> token list) option" where
  "end_number tok c =
     (case idle_step c of
        None \<Rightarrow> None
      | Some (st, toks) \<Rightarrow> Some (st, TNumber tok # toks))"

definition is_exponent_mark :: "16 word \<Rightarrow> bool" where
  "is_exponent_mark c = (c = 101 \<or> c = 69)"

fun number_step :: "numstate \<Rightarrow> jsstring \<Rightarrow> 16 word \<Rightarrow> (lexstate \<times> token list) option" where
  "number_step NMinus tok c =
     (if c = 48 then Some (InNumber NZero (tok @ [c]), [])
      else if is_digit c then Some (InNumber NInt (tok @ [c]), [])
      else None)"
| "number_step NZero tok c =
     (if c = 46 then Some (InNumber NDot (tok @ [c]), [])
      else if is_exponent_mark c then Some (InNumber NExp (tok @ [c]), [])
      else end_number tok c)"
| "number_step NInt tok c =
     (if is_digit c then Some (InNumber NInt (tok @ [c]), [])
      else if c = 46 then Some (InNumber NDot (tok @ [c]), [])
      else if is_exponent_mark c then Some (InNumber NExp (tok @ [c]), [])
      else end_number tok c)"
| "number_step NDot tok c =
     (if is_digit c then Some (InNumber NFrac (tok @ [c]), []) else None)"
| "number_step NFrac tok c =
     (if is_digit c then Some (InNumber NFrac (tok @ [c]), [])
      else if is_exponent_mark c then Some (InNumber NExp (tok @ [c]), [])
      else end_number tok c)"
| "number_step NExp tok c =
     (if c = 43 \<or> c = 45 then Some (InNumber NExpSign (tok @ [c]), [])
      else if is_digit c then Some (InNumber NExpDigits (tok @ [c]), [])
      else None)"
| "number_step NExpSign tok c =
     (if is_digit c then Some (InNumber NExpDigits (tok @ [c]), []) else None)"
| "number_step NExpDigits tok c =
     (if is_digit c then Some (InNumber NExpDigits (tok @ [c]), [])
      else end_number tok c)"

definition literal_step :: "token \<Rightarrow> jsstring \<Rightarrow> 16 word \<Rightarrow> (lexstate \<times> token list) option" where
  "literal_step tok rest c =
     (case rest of
        [] \<Rightarrow> None
      | r # rs \<Rightarrow>
          if c = r then (if rs = [] then Some (Idle, [tok]) else Some (InLiteral tok rs, []))
          else None)"

fun lex_step :: "lexstate \<Rightarrow> 16 word \<Rightarrow> (lexstate \<times> token list) option" where
  "lex_step Idle c = idle_step c"
| "lex_step (InString acc) c = string_step acc c"
| "lex_step (InEscape acc) c = escape_step acc c"
| "lex_step (InUnicode acc ds) c = unicode_step acc ds c"
| "lex_step (InNumber ns tok) c = number_step ns tok c"
| "lex_step (InLiteral tok rest) c = literal_step tok rest c"

text \<open>At the end of the text a number may end; a string or a literal may not.\<close>

fun lex_finish :: "lexstate \<Rightarrow> token list option" where
  "lex_finish Idle = Some []"
| "lex_finish (InNumber NZero tok) = Some [TNumber tok]"
| "lex_finish (InNumber NInt tok) = Some [TNumber tok]"
| "lex_finish (InNumber NFrac tok) = Some [TNumber tok]"
| "lex_finish (InNumber NExpDigits tok) = Some [TNumber tok]"
| "lex_finish _ = None"

fun lex :: "lexstate \<Rightarrow> jsstring \<Rightarrow> token list option" where
  "lex st [] = lex_finish st"
| "lex st (c # cs) =
     (case lex_step st c of
        None \<Rightarrow> None
      | Some (st', toks) \<Rightarrow>
          (case lex st' cs of None \<Rightarrow> None | Some rest \<Rightarrow> Some (toks @ rest)))"

text \<open>
  The parser reads one token at a time and keeps the containers that are still open:
  an array with its elements so far, or an object with its members so far and the key
  whose value is being read.
\<close>

datatype 'n frame =
    ArrayFrame "'n json list"
  | ObjectFrame "(jsstring \<times> 'n json) list" jsstring

datatype 'n pstate =
    ExpectValue "'n frame list"
  | ArrayStart "'n frame list"
  | ObjectStart "'n frame list"
  | ExpectKey "(jsstring \<times> 'n json) list" "'n frame list"
  | ExpectColon "(jsstring \<times> 'n json) list" jsstring "'n frame list"
  | AfterElement "'n json list" "'n frame list"
  | AfterMember "(jsstring \<times> 'n json) list" "'n frame list"
  | Finished "'n json"

text \<open>
  A value is complete: it is the document, the next element of the open array, or the
  value of the pending key of the open object (a repeated key keeps its place and
  takes the later value).
\<close>

fun complete :: "'n json \<Rightarrow> 'n frame list \<Rightarrow> 'n pstate" where
  "complete v [] = Finished v"
| "complete v (ArrayFrame es # fs) = AfterElement (es @ [v]) fs"
| "complete v (ObjectFrame ms k # fs) = AfterMember (AList.update k v ms) fs"

fun value_token :: "('n, 'h) host \<Rightarrow> token \<Rightarrow> 'n frame list \<Rightarrow> 'n pstate option" where
  "value_token N TNull fs = Some (complete JNull fs)"
| "value_token N TTrue fs = Some (complete (JBool True) fs)"
| "value_token N TFalse fs = Some (complete (JBool False) fs)"
| "value_token N (TNumber t) fs = Some (complete (JNum (toNumber N t)) fs)"
| "value_token N (TString s) fs = Some (complete (JStr s) fs)"
| "value_token N TLBracket fs = Some (ArrayStart fs)"
| "value_token N TLBrace fs = Some (ObjectStart fs)"
| "value_token N _ fs = None"

fun parse_step :: "('n, 'h) host \<Rightarrow> 'n pstate \<Rightarrow> token \<Rightarrow> 'n pstate option" where
  "parse_step N (ExpectValue fs) t = value_token N t fs"
| "parse_step N (ArrayStart fs) t =
     (if t = TRBracket then Some (complete (JArr []) fs)
      else value_token N t (ArrayFrame [] # fs))"
| "parse_step N (AfterElement es fs) t =
     (if t = TComma then Some (ExpectValue (ArrayFrame es # fs))
      else if t = TRBracket then Some (complete (JArr es) fs)
      else None)"
| "parse_step N (ObjectStart fs) t =
     (case t of
        TString k \<Rightarrow> Some (ExpectColon [] k fs)
      | TRBrace \<Rightarrow> Some (complete (JObj []) fs)
      | _ \<Rightarrow> None)"
| "parse_step N (ExpectKey ms fs) t =
     (case t of TString k \<Rightarrow> Some (ExpectColon ms k fs) | _ \<Rightarrow> None)"
| "parse_step N (ExpectColon ms k fs) t =
     (if t = TColon then Some (ExpectValue (ObjectFrame ms k # fs)) else None)"
| "parse_step N (AfterMember ms fs) t =
     (if t = TComma then Some (ExpectKey ms fs)
      else if t = TRBrace then Some (complete (JObj ms) fs)
      else None)"
| "parse_step N (Finished v) t = None"

fun parse_tokens :: "('n, 'h) host \<Rightarrow> 'n pstate \<Rightarrow> token list \<Rightarrow> 'n json option" where
  "parse_tokens N st [] = (case st of Finished v \<Rightarrow> Some v | _ \<Rightarrow> None)"
| "parse_tokens N st (t # ts) =
     (case parse_step N st t of None \<Rightarrow> None | Some st' \<Rightarrow> parse_tokens N st' ts)"

text \<open>\<open>JSON.parse\<close>: \<open>None\<close> stands for the SyntaxError it throws.\<close>

definition JSON_parse :: "('n, 'h) host \<Rightarrow> jsstring \<Rightarrow> 'n json option" where
  "JSON_parse N text =
     (case lex Idle text of
        None \<Rightarrow> None
      | Some toks \<Rightarrow> parse_tokens N (ExpectValue []) toks)"

section \<open>updateJsonAtPath\<close>

text \<open>
  The values that the variable \<open>current\<close> takes: \<open>undefined\<close>, a value of the parsed
  document, or a value of the host that the walk found on a prototype.
\<close>

datatype ('n, 'h) jsval = Undefined | Val "'n json" | Host 'h

text \<open>The test \<open>typeof current === "object" && current !== null\<close>.\<close>

fun is_object :: "('n, 'h) host \<Rightarrow> ('n, 'h) jsval \<Rightarrow> bool" where
  "is_object N Undefined = False"
| "is_object N (Val JNull) = False"
| "is_object N (Val (JBool b)) = False"
| "is_object N (Val (JNum n)) = False"
| "is_object N (Val (JStr s)) = False"
| "is_object N (Val (JArr xs)) = True"
| "is_object N (Val (JObj ms)) = True"
| "is_object N (Host h) = hostIsObject N h"

text \<open>
  \<open>current\<close> is a reference: when it holds an object or an array of the parsed
  document, an assignment through it changes the document.  The model keeps, beside
  the value, its location: the own keys that lead from the root of the document to it.
  (For a value that is not part of the document the location has no meaning.)
\<close>

type_synonym ('n, 'h) reference = "jsstring list \<times> ('n, 'h) jsval"

text \<open>A property found on the prototype chain, or not found there.\<close>

fun found :: "'h option \<Rightarrow> ('n, 'h) jsval" where
  "found None = Undefined"
| "found (Some h) = Host h"

text \<open>
  \<open>current[key]\<close>.  Reading a property of \<open>undefined\<close> or \<open>null\<close> throws a
  TypeError.  An object has its members; an array and a string have their indices
  and \<open>length\<close>; every other key is looked up along the prototype chain of the value
  (for a number or a boolean, that of its wrapper).
\<close>

fun get_property ::
  "('n, 'h) host \<Rightarrow> ('n, 'h) reference \<Rightarrow> jsstring \<Rightarrow> js_error + ('n, 'h) reference" where
  "get_property N (loc, Undefined) k = Inl TypeError"
| "get_property N (loc, Val JNull) k = Inl TypeError"
| "get_property N (loc, Val (JObj ms)) k =
     (case map_of ms k of
        Some v \<Rightarrow> Inr (loc @ [k], Val v)
      | None \<Rightarrow> Inr (loc @ [k], found (inherited N ObjectPrototype k)))"
| "get_property N (loc, Val (JArr xs)) k =
     (case array_index k of
        Some i \<Rightarrow>
          if i < length xs then Inr (loc @ [k], Val (xs ! i))
          else Inr (loc @ [k], found (inherited N ArrayPrototype k))
      | None \<Rightarrow>
          if k = js ''length'' then Inr (loc @ [k], Val (JNum (lengthNumber N (length xs))))
          else Inr (loc @ [k], found (inherited N ArrayPrototype k)))"
| "get_property N (loc, Val (JStr s)) k =
     (case array_index k of
        Some i \<Rightarrow>
          if i < length s then Inr (loc @ [k], Val (JStr [s ! i]))
          else Inr (loc @ [k], found (inherited N StringPrototype k))
      | None \<Rightarrow>
          if k = js ''length'' then Inr (loc @ [k], Val (JNum (lengthNumber N (length s))))
          else Inr (loc @ [k], found (inherited N StringPrototype k)))"
| "get_property N (loc, Val (JBool b)) k = Inr (loc @ [k], found (inherited N BooleanPrototype k))"
| "get_property N (loc, Val (JNum n)) k = Inr (loc @ [k], found (inherited N NumberPrototype k))"
| "get_property N (loc, Host h) k =
     (case hostGet N h k of
        Inl e \<Rightarrow> Inl e
      | Inr p \<Rightarrow> Inr (loc @ [k], found p))"

text \<open>
  The loop \<open>for (let i = 0; i < path.length; i++) current = current[path[i]]\<close>.
\<close>

fun walk ::
  "('n, 'h) host \<Rightarrow> ('n, 'h) reference \<Rightarrow> 'n segment list \<Rightarrow> js_error + ('n, 'h) reference" where
  "walk N current [] = Inr current"
| "walk N current (seg # rest) =
     (case get_property N current (segment_text N seg) of
        Inl e \<Rightarrow> Inl e
      | Inr next \<Rightarrow> walk N next rest)"

text \<open>
  \<open>current[key] = value\<close> for a string \<open>value\<close>, on an object or an array of the
  document.  On an object see \<open>assign_member\<close>.  On an array an index below the
  length replaces the element, an index beyond it lengthens the array and leaves holes
  in between, \<open>length\<close> cuts or lengthens the array or throws a RangeError, and any
  other key leaves the elements as they are (\<open>__proto__\<close> is ignored by the inherited
  setter, another key becomes a property that \<open>JSON.stringify\<close> does not write).
\<close>

fun set_property ::
  "('n, 'h) host \<Rightarrow> 'n json \<Rightarrow> jsstring \<Rightarrow> jsstring \<Rightarrow> js_error + 'n json" where
  "set_property N (JObj ms) k v = Inr (JObj (assign_member ms k (JStr v)))"
| "set_property N (JArr xs) k v =
     (case array_index k of
        Some i \<Rightarrow>
          if i < length xs then Inr (JArr (xs[i := JStr v]))
          else Inr (JArr (xs @ map (holeValue N) [length xs ..< i] @ [JStr v]))
      | None \<Rightarrow>
          if k = js ''length'' then
            (case toArrayLength N v of
               None \<Rightarrow> Inl RangeError
             | Some n \<Rightarrow> Inr (JArr (take n xs @ map (holeValue N) [length xs ..< n])))
          else Inr (JArr xs))"
| "set_property N c k v = Inr c"

text \<open>
  \<open>Object.entries(newValues).forEach(([key, value]) => { current[key] = value })\<close>.
\<close>

fun assign_entries ::
  "('n, 'h) host \<Rightarrow> 'n json \<Rightarrow> (jsstring \<times> jsstring) list \<Rightarrow> js_error + 'n json" where
  "assign_entries N c [] = Inr c"
| "assign_entries N c ((k, v) # es) =
     (case set_property N c k v of
        Inl e \<Rightarrow> Inl e
      | Inr c' \<Rightarrow> assign_entries N c' es)"

text \<open>The same assignments when \<open>current\<close> is an object of the host.\<close>

fun assign_host :: "('n, 'h) host \<Rightarrow> 'h \<Rightarrow> (jsstring \<times> jsstring) list \<Rightarrow> js_error option" where
  "assign_host N h [] = None"
| "assign_host N h ((k, v) # es) =
     (case hostSet N h k v of
        Some e \<Rightarrow> Some e
      | None \<Rightarrow> assign_host N h es)"

text \<open>The value of the document at a location, and the document with that value replaced.\<close>

fun value_at :: "jsstring list \<Rightarrow> 'n json \<Rightarrow> 'n json option" where
  "value_at [] v = Some v"
| "value_at (k # ks) (JObj ms) =
     (case map_of ms k of None \<Rightarrow> None | Some c \<Rightarrow> value_at ks c)"
| "value_at (k # ks) (JArr xs) =
     (case array_index k of
        None \<Rightarrow> None
      | Some i \<Rightarrow> if i < length xs then value_at ks (xs ! i) else None)"
| "value_at (k # ks) v = None"

fun write_at :: "jsstring list \<Rightarrow> 'n json \<Rightarrow> 'n json \<Rightarrow> 'n json" where
  "write_at [] new v = new"
| "write_at (k # ks) new (JObj ms) =
     (case map_of ms k of
        None \<Rightarrow> JObj ms
      | Some c \<Rightarrow> JObj (AList.update k (write_at ks new c) ms))"
| "write_at (k # ks) new (JArr xs) =
     (case array_index k of
        None \<Rightarrow> JArr xs
      | Some i \<Rightarrow> if i < length xs then JArr (xs[i := write_at ks new (xs ! i)]) else JArr xs)"
| "write_at (k # ks) new v = v"

text \<open>
  The body of the \<open>try\<close> block.  \<open>newValues\<close> is an object whose values are
  strings: the list of its own properties.  When \<open>current\<close> is an object of the
  host, the assignments change no own property of the document.
\<close>

definition update_body ::
  "('n, 'h) host \<Rightarrow> jsstring \<Rightarrow> 'n segment list \<Rightarrow> (jsstring \<times> jsstring) list
     \<Rightarrow> js_error + jsstring" where
  "update_body N json path newValues =
     (case JSON_parse N json of
        None \<Rightarrow> Inl SyntaxError
      | Some obj \<Rightarrow>
          (case walk N ([], Val obj) path of
             Inl e \<Rightarrow> Inl e
           | Inr (loc, current) \<Rightarrow>
               if is_object N current then
                 (case current of
                    Val c \<Rightarrow>
                      (case assign_entries N c (own_entries newValues) of
                         Inl e \<Rightarrow> Inl e
                       | Inr c' \<Rightarrow> Inr (JSON_stringify N (write_at loc c' obj)))
                  | Host h \<Rightarrow>
                      (case assign_host N h (own_entries newValues) of
                         Some e \<Rightarrow> Inl e
                       | None \<Rightarrow> Inr (JSON_stringify N obj))
                  | Undefined \<Rightarrow> Inr (JSON_stringify N obj))
               else Inr (JSON_stringify N obj)))"

text \<open>
  \<open>try { ... } catch (error) { console.error(...); return json; }\<close>.  The result is
  \<open>Inr\<close> of the text returned, or \<open>Inl\<close> of an exception that reaches the caller.
\<close>

definition updateJsonAtPath ::
  "('n, 'h) host \<Rightarrow> jsstring \<Rightarrow> 'n segment list \<Rightarrow> (jsstring \<times> jsstring) list
     \<Rightarrow> js_error + jsstring" where
  "updateJsonAtPath N json path newValues =
     (case update_body N json path newValues of
        Inl error \<Rightarrow> Inr json
      | Inr text \<Rightarrow> Inr text)"

section \<open>Nodes and rows\<close>

text \<open>
  Modelled from the spec: the types \<open>NodeData\<close> and its rows (the module
  \<open>types/graph\<close>).  A row has an optional key (\<open>None\<close>: \<open>null\<close> or \<open>undefined\<close>),
  a value and a type tag; a node has its rows, an optional path and further
  attributes that this component never reads (the extension of the record).  The
  value of a row of the graph is a scalar.
\<close>

datatype 'n scalar = VUndefined | VNull | VBool bool | VNum 'n | VStr jsstring

record 'v row =
  row_key :: "jsstring option"
  row_value :: 'v
  row_type :: jsstring

record ('v, 'n) node_data =
  node_text :: "'v row list"
  node_path :: "'n segment list option"

text \<open>\<open>ToString\<close> of a scalar, as a template literal and \<open>String(...)\<close> apply it.\<close>

fun to_string :: "('n, 'h) host \<Rightarrow> 'n scalar \<Rightarrow> jsstring" where
  "to_string N VUndefined = js ''undefined''"
| "to_string N VNull = js ''null''"
| "to_string N (VBool b) = (if b then js ''true'' else js ''false'')"
| "to_string N (VNum n) = numberToString N n"
| "to_string N (VStr s) = s"

text \<open>
  The truth value of \<open>row.key\<close> in a condition: \<open>null\<close>, \<open>undefined\<close> and the empty
  string are false.
\<close>

fun truthy :: "jsstring option \<Rightarrow> bool" where
  "truthy None = False"
| "truthy (Some s) = (s \<noteq> [])"

definition is_scalar_row :: "'v row \<Rightarrow> bool" where
  "is_scalar_row r = (row_type r \<noteq> js ''array'' \<and> row_type r \<noteq> js ''object'')"

text \<open>
  \<open>JSON.stringify(obj, null, 2)\<close> for an object whose values are scalars: a member
  whose value is \<open>undefined\<close> is left out.
\<close>

fun scalar_json :: "'n scalar \<Rightarrow> 'n json option" where
  "scalar_json VUndefined = None"
| "scalar_json VNull = Some JNull"
| "scalar_json (VBool b) = Some (JBool b)"
| "scalar_json (VNum n) = Some (JNum n)"
| "scalar_json (VStr s) = Some (JStr s)"

definition stringify_scalars :: "('n, 'h) host \<Rightarrow> (jsstring \<times> 'n scalar) list \<Rightarrow> jsstring" where
  "stringify_scalars N obj =
     JSON_stringify N
       (JObj (List.map_filter (\<lambda>(k, v). map_option (Pair k) (scalar_json v)) obj))"

section \<open>normalizeNodeData\<close>

text \<open>
  \<open>obj[row.key] = row.value\<close> on the object that \<open>normalizeNodeData\<close> builds:
  whether the object still has its prototype, and its own properties.  While it has,
  the key \<open>__proto__\<close> (when not an own property) goes to the inherited setter: the
  value \<open>null\<close> removes the prototype, any other scalar is ignored.
\<close>

fun assign_scalar ::
  "bool \<times> (jsstring \<times> 'n scalar) list \<Rightarrow> jsstring \<Rightarrow> 'n scalar
     \<Rightarrow> bool \<times> (jsstring \<times> 'n scalar) list" where
  "assign_scalar (prototyped, ms) k v =
     (if k = proto_key \<and> prototyped \<and> map_of ms k = None
      then (if v = VNull then (False, ms) else (True, ms))
      else (prototyped, AList.update k v ms))"

definition normalizeNodeData :: "('n, 'h) host \<Rightarrow> 'n scalar row list option \<Rightarrow> jsstring" where
  "normalizeNodeData N nodeRows =
     (case nodeRows of
        None \<Rightarrow> js ''{}''
      | Some rows \<Rightarrow>
          if length rows = 0 then js ''{}''
          else if length rows = 1 \<and> \<not> truthy (row_key (rows ! 0))
          then to_string N (row_value (rows ! 0))
          else stringify_scalars N
                 (snd (fold (\<lambda>r obj.
                               if row_type r \<noteq> js ''array'' \<and> row_type r \<noteq> js ''object''
                               then (if truthy (row_key r)
                                     then assign_scalar obj (the (row_key r)) (row_value r)
                                     else obj)
                               else obj)
                         rows (True, []))))"

text \<open>
  The reference definition of the specification: \<open>{}\<close> for no rows; the value as text
  for one row that has no key; otherwise the serialised mapping from key to value of
  the rows whose type is neither \<open>array\<close> nor \<open>object\<close> and whose key is present.
\<close>

definition mapping_of_rows :: "'n scalar row list \<Rightarrow> (jsstring \<times> 'n scalar) list" where
  "mapping_of_rows rows = fold (\<lambda>r. AList.update (the (row_key r)) (row_value r)) rows []"

definition normalizeNodeData_spec ::
  "('n, 'h) host \<Rightarrow> 'n scalar row list option \<Rightarrow> jsstring" where
  "normalizeNodeData_spec N nodeRows =
     (case nodeRows of
        None \<Rightarrow> js ''{}''
      | Some [] \<Rightarrow> js ''{}''
      | Some (r # rs) \<Rightarrow>
          if rs = [] \<and> row_key r = None then to_string N (row_value r)
          else stringify_scalars N
                 (mapping_of_rows
                    (filter (\<lambda>r. is_scalar_row r \<and> row_key r \<noteq> None) (r # rs))))"

text \<open>
  The same definition with the code's reading of a key: a row whose key is the empty
  string counts as a row without a key.
\<close>

definition normalizeNodeData_amended ::
  "('n, 'h) host \<Rightarrow> 'n scalar row list option \<Rightarrow> jsstring" where
  "normalizeNodeData_amended N nodeRows =
     (case nodeRows of
        None \<Rightarrow> js ''{}''
      | Some [] \<Rightarrow> js ''{}''
      | Some (r # rs) \<Rightarrow>
          if rs = [] \<and> (row_key r = None \<or> row_key r = Some []) then to_string N (row_value r)
          else stringify_scalars N
                 (mapping_of_rows
                    (filter (\<lambda>r. is_scalar_row r \<and> row_key r \<noteq> None \<and> row_key r \<noteq> Some [])
                       (r # rs))))"

section \<open>The modal component\<close>

text \<open>
  Modelled from the spec: the two stores (the modules \<open>store/useFile\<close> and
  \<open>stores/useGraph\<close>).  The graph store holds the selected node; the file store holds
  the document text, its format and the changed flag, and \<open>setContents\<close> replaces
  them.  The component adds its own state: the edit mode and the edited values.
\<close>

record ('v, 'n, 'a, 'f) modal =
  selectedNode :: "('v, 'n, 'a) node_data_scheme option"
  contents :: jsstring
  format :: 'f
  hasChanges :: bool
  skipUpdate :: bool
  isEditing :: bool
  editedValues :: "(jsstring \<times> jsstring) list"

definition setContents ::
  "jsstring \<Rightarrow> bool \<Rightarrow> bool \<Rightarrow> 'f \<Rightarrow> ('v, 'n, 'a, 'f) modal \<Rightarrow> ('v, 'n, 'a, 'f) modal" where
  "setContents c changed skip f s =
     s\<lparr>contents := c, hasChanges := changed, skipUpdate := skip, format := f\<rparr>"

definition setSelectedNode ::
  "('v, 'n, 'a) node_data_scheme \<Rightarrow> ('v, 'n, 'a, 'f) modal \<Rightarrow> ('v, 'n, 'a, 'f) modal" where
  "setSelectedNode node s = s\<lparr>selectedNode := Some node\<rparr>"

text \<open>
  The effect that runs when \<open>isEditing\<close> or the node changes: in edit mode the edited
  values are initialised from the rows, by assignments to a fresh object.
\<close>

definition initialValues ::
  "('n, 'h) host \<Rightarrow> 'n scalar row list \<Rightarrow> (jsstring \<times> jsstring) list" where
  "initialValues N rows =
     fold (\<lambda>r vals.
             if row_type r \<noteq> js ''array'' \<and> row_type r \<noteq> js ''object'' \<and> truthy (row_key r)
             then assign_member vals (the (row_key r))
                    (to_string N
                       (if row_value r = VNull \<or> row_value r = VUndefined then VStr []
                        else row_value r))
             else vals)
       rows []"

definition effect ::
  "('n, 'h) host \<Rightarrow> ('n scalar, 'n, 'a, 'f) modal \<Rightarrow> ('n scalar, 'n, 'a, 'f) modal" where
  "effect N s =
     (case selectedNode s of
        None \<Rightarrow> s
      | Some nodeData \<Rightarrow>
          if isEditing s then s\<lparr>editedValues := initialValues N (node_text nodeData)\<rparr> else s)"

text \<open>
  \<open>setEditedValues(prev => ({ ...prev, [key]: value }))\<close>: the copy has the properties
  of \<open>prev\<close> in the order of their enumeration, then \<open>key\<close> is defined as an own
  property (a computed key of an object literal, also when it is \<open>__proto__\<close>).
\<close>

definition handleEditChange ::
  "jsstring \<Rightarrow> jsstring \<Rightarrow> ('v, 'n, 'a, 'f) modal \<Rightarrow> ('v, 'n, 'a, 'f) modal" where
  "handleEditChange k v s =
     s\<lparr>editedValues := AList.update k v (own_entries (editedValues s))\<rparr>"

text \<open>
  The value that Save stores in a row: a scalar, or a value that the lookup
  \<open>editedValues[row.key]\<close> found on the prototype chain of the edited values.
\<close>

datatype ('n, 'h) saved = Scalar "'n scalar" | Inherited 'h

text \<open>
  \<open>editedValues[key]\<close> (\<open>None\<close>: \<open>undefined\<close>): the own property, a string, or else
  what \<open>Object.prototype\<close> has under that key.
\<close>

definition edited_value ::
  "('n, 'h) host \<Rightarrow> (jsstring \<times> jsstring) list \<Rightarrow> jsstring \<Rightarrow> ('n, 'h) saved option" where
  "edited_value N edited k =
     (case map_of edited k of
        Some v \<Rightarrow> Some (Scalar (VStr v))
      | None \<Rightarrow> map_option Inherited (inherited N ObjectPrototype k))"

text \<open>A row of the graph as a row that Save stores, and the same for nodes and states.\<close>

definition kept_row :: "'n scalar row \<Rightarrow> ('n, 'h) saved row" where
  "kept_row r = \<lparr>row_key = row_key r, row_value = Scalar (row_value r), row_type = row_type r\<rparr>"

definition kept_node ::
  "('n scalar, 'n, 'a) node_data_scheme \<Rightarrow> (('n, 'h) saved, 'n, 'a) node_data_scheme" where
  "kept_node nodeData =
     \<lparr>node_text = map kept_row (node_text nodeData), node_path = node_path nodeData,
        \<dots> = node_data.more nodeData\<rparr>"

definition kept_state ::
  "('n scalar, 'n, 'a, 'f) modal \<Rightarrow> (('n, 'h) saved, 'n, 'a, 'f) modal" where
  "kept_state s =
     \<lparr>selectedNode = map_option kept_node (selectedNode s), contents = contents s,
        format = format s, hasChanges = hasChanges s, skipUpdate = skipUpdate s,
        isEditing = isEditing s, editedValues = editedValues s\<rparr>"

text \<open>
  \<open>nodeData.text.map(row => ... ? { ...row, value: editedValues[row.key] } : row)\<close>
  and \<open>{ ...nodeData, text: updatedText }\<close>.
\<close>

definition updatedText ::
  "('n, 'h) host \<Rightarrow> (jsstring \<times> jsstring) list \<Rightarrow> 'n scalar row list
     \<Rightarrow> ('n, 'h) saved row list" where
  "updatedText N edited rows =
     map (\<lambda>r. if row_type r \<noteq> js ''array'' \<and> row_type r \<noteq> js ''object'' \<and> truthy (row_key r)
                 \<and> edited_value N edited (the (row_key r)) \<noteq> None
              then \<lparr>row_key = row_key r,
                    row_value = the (edited_value N edited (the (row_key r))),
                    row_type = row_type r\<rparr>
              else kept_row r)
       rows"

definition updatedNode ::
  "('n, 'h) host \<Rightarrow> (jsstring \<times> jsstring) list \<Rightarrow> ('n scalar, 'n, 'a) node_data_scheme
     \<Rightarrow> (('n, 'h) saved, 'n, 'a) node_data_scheme" where
  "updatedNode N edited nodeData =
     \<lparr>node_text = updatedText N edited (node_text nodeData), node_path = node_path nodeData,
        \<dots> = node_data.more nodeData\<rparr>"

text \<open>
  \<open>handleSave\<close>.  Without a selected node it returns at once.  An exception inside
  its \<open>try\<close> block is logged and leaves the state as it is.
\<close>

definition handleSave ::
  "('n, 'h) host \<Rightarrow> ('n scalar, 'n, 'a, 'f) modal \<Rightarrow> (('n, 'h) saved, 'n, 'a, 'f) modal" where
  "handleSave N s =
     (case selectedNode s of
        None \<Rightarrow> kept_state s
      | Some nodeData \<Rightarrow>
          (let node = updatedNode N (editedValues s) nodeData;
               currentContents = contents s;
               currentFormat = format s
           in case updateJsonAtPath N currentContents
                     (case node_path nodeData of None \<Rightarrow> [] | Some p \<Rightarrow> p) (editedValues s) of
                Inl error \<Rightarrow> kept_state s
              | Inr updatedJson \<Rightarrow>
                  (setSelectedNode node
                     (setContents updatedJson True False currentFormat (kept_state s)))
                    \<lparr>isEditing := False\<rparr>))"

definition handleCancel :: "('v, 'n, 'a, 'f) modal \<Rightarrow> ('v, 'n, 'a, 'f) modal" where
  "handleCancel s = s\<lparr>isEditing := False, editedValues := []\<rparr>"

text \<open>
  The Edit button: enabled when some row is editable; a click sets the edit mode, and
  the effect follows.
\<close>

definition editableRows :: "('v, 'n, 'a) node_data_scheme \<Rightarrow> 'v row list" where
  "editableRows nodeData =
     filter (\<lambda>r. row_type r \<noteq> js ''array'' \<and> row_type r \<noteq> js ''object'') (node_text nodeData)"

definition edit_disabled :: "('v, 'n, 'a) node_data_scheme \<Rightarrow> bool" where
  "edit_disabled nodeData = (length (editableRows nodeData) = 0)"

definition clickEdit ::
  "('n, 'h) host \<Rightarrow> ('n scalar, 'n, 'a, 'f) modal \<Rightarrow> ('n scalar, 'n, 'a, 'f) modal" where
  "clickEdit N s = effect N (s\<lparr>isEditing := True\<rparr>)"

section \<open>A host for evaluation\<close>

text \<open>
  Numbers in decimal: zero, an infinity, or a finite number other than zero given by
  its sign, its significant digits \<open>d1 ... dk\<close> (no leading and no trailing zero) and
  the position \<open>n\<close> of the decimal point, with the value \<open>0.d1...dk * 10^n\<close>.  A
  numeral is read exactly, up to the range of the doubles: a magnitude of at least
  \<open>2^1024 - 2^970\<close> reads as an infinity, one of at most \<open>2^-1075\<close> as zero.  In
  between the model agrees with the doubles of the host on numerals of at most 15
  significant digits and magnitude at least \<open>2^-1022\<close>; longer numerals, which the
  host rounds, are outside the evaluations below.
\<close>

datatype jsnumber = Zero | Finite bool jsstring int | Infinite bool

definition strip_zeros :: "jsstring \<Rightarrow> jsstring" where
  "strip_zeros ds = rev (dropWhile (\<lambda>c. c = 48) (rev (dropWhile (\<lambda>c. c = 48) ds)))"

definition overflows :: "jsstring \<Rightarrow> int \<Rightarrow> bool" where
  "overflows ds n =
     (if n > 309 then True
      else if n < 309 then False
      else if length ds \<le> 309
      then 2 ^ 1024 - 2 ^ 970 \<le> digits_value ds * 10 ^ (309 - length ds)
      else (2 ^ 1024 - 2 ^ 970) * 10 ^ (length ds - 309) \<le> digits_value ds)"

definition underflows :: "jsstring \<Rightarrow> int \<Rightarrow> bool" where
  "underflows ds n =
     (if n < - 323 then True
      else if n > - 323 then False
      else digits_value ds * 2 ^ 1075 \<le> 10 ^ (323 + length ds))"

text \<open>
  The number with the given sign and the magnitude \<open>0.ds * 10^n\<close>, for digits \<open>ds\<close>
  that may begin and end with zeros.
\<close>

definition make_number :: "bool \<Rightarrow> jsstring \<Rightarrow> int \<Rightarrow> jsnumber" where
  "make_number negative ds n =
     (let sig = strip_zeros ds;
          point = n - int (length (takeWhile (\<lambda>c. c = 48) ds))
      in if sig = [] then Zero
         else if overflows sig point then Infinite negative
         else if underflows sig point then Zero
         else Finite negative sig point)"

definition number_of_nat :: "nat \<Rightarrow> jsnumber" where
  "number_of_nat n = make_number False (decimal n) (int (length (decimal n)))"

text \<open>
  A decimal literal \<open>digits [. digits] [(e | E) [+ | -] digits]\<close>, with a digit
  before or after the point: its digits and the position of the point (\<open>None\<close>: the
  text has not that shape).
\<close>

definition exponent_part :: "jsstring \<Rightarrow> int option" where
  "exponent_part r =
     (if r = [] then Some 0
      else if hd r = 101 \<or> hd r = 69 then
        (let negative = (tl r \<noteq> [] \<and> hd (tl r) = 45);
             signed = (tl r \<noteq> [] \<and> (hd (tl r) = 45 \<or> hd (tl r) = 43));
             ds = (if signed then tl (tl r) else tl r)
         in if ds \<noteq> [] \<and> list_all is_digit ds
            then Some (if negative then - int (digits_value ds) else int (digits_value ds))
            else None)
      else None)"

definition decimal_literal :: "jsstring \<Rightarrow> (jsstring \<times> int) option" where
  "decimal_literal s =
     (let whole = takeWhile is_digit s;
          r = dropWhile is_digit s;
          pointed = (r \<noteq> [] \<and> hd r = 46);
          fraction = (if pointed then takeWhile is_digit (tl r) else []);
          r' = (if pointed then dropWhile is_digit (tl r) else r)
      in if whole = [] \<and> fraction = [] then None
         else (case exponent_part r' of
                 None \<Rightarrow> None
               | Some e \<Rightarrow> Some (whole @ fraction, int (length whole) + e)))"

text \<open>The value of a JSON number token (an optional minus sign and a decimal literal).\<close>

definition number_of_token :: "jsstring \<Rightarrow> jsnumber" where
  "number_of_token tok =
     (let negative = (tok \<noteq> [] \<and> hd tok = 45)
      in case decimal_literal (if negative then tl tok else tok) of
           None \<Rightarrow> Zero
         | Some (ds, n) \<Rightarrow> make_number negative ds n)"

text \<open>\<open>Number::toString\<close> in radix 10.\<close>

fun number_to_string :: "jsnumber \<Rightarrow> jsstring" where
  "number_to_string Zero = js ''0''"
| "number_to_string (Infinite negative) = (if negative then js ''-Infinity'' else js ''Infinity'')"
| "number_to_string (Finite negative ds n) =
     (if negative then js ''-'' else [])
     @ (let k = int (length ds)
        in if k \<le> n \<and> n \<le> 21 then ds @ replicate (nat (n - k)) 48
           else if 0 < n \<and> n \<le> 21 then take (nat n) ds @ js ''.'' @ drop (nat n) ds
           else if - 6 < n \<and> n \<le> 0 then js ''0.'' @ replicate (nat (- n)) 48 @ ds
           else (if k = 1 then ds else [hd ds] @ js ''.'' @ tl ds)
                @ js ''e'' @ (if n - 1 < 0 then js ''-'' else js ''+'')
                @ decimal (nat (abs (n - 1))))"

fun is_finite :: "jsnumber \<Rightarrow> bool" where
  "is_finite (Infinite negative) = False"
| "is_finite x = True"

text \<open>
  \<open>StringToNumber\<close>, for a string assigned to the \<open>length\<close> of an array: white space
  around the literal is dropped; the empty string is zero; a literal is decimal with
  an optional sign, \<open>Infinity\<close> with an optional sign, or an unsigned integer in
  radix 16, 8 or 2; anything else is not a number (\<open>None\<close>).
\<close>

definition is_space :: "16 word \<Rightarrow> bool" where
  "is_space c =
     (c \<in> {9, 10, 11, 12, 13, 32, 160, 5760, 8232, 8233, 8239, 8287, 12288, 65279}
      \<or> (8192 \<le> c \<and> c \<le> 8202))"

definition trim :: "jsstring \<Rightarrow> jsstring" where
  "trim s = rev (dropWhile is_space (rev (dropWhile is_space s)))"

definition radix_digit :: "16 word \<Rightarrow> nat option" where
  "radix_digit c =
     (if 48 \<le> c \<and> c \<le> 57 then Some (unat c - 48)
      else if 97 \<le> c \<and> c \<le> 102 then Some (unat c - 87)
      else if 65 \<le> c \<and> c \<le> 70 then Some (unat c - 55)
      else None)"

definition radix_value :: "nat \<Rightarrow> jsstring \<Rightarrow> nat option" where
  "radix_value b ds =
     (if ds \<noteq> [] \<and> list_all (\<lambda>c. case radix_digit c of None \<Rightarrow> False | Some d \<Rightarrow> d < b) ds
      then Some (foldl (\<lambda>a c. b * a + the (radix_digit c)) 0 ds)
      else None)"

definition string_to_number :: "jsstring \<Rightarrow> jsnumber option" where
  "string_to_number s =
     (let t = trim s;
          negative = (t \<noteq> [] \<and> hd t = 45);
          signed = (t \<noteq> [] \<and> (hd t = 45 \<or> hd t = 43));
          body = (if signed then tl t else t)
      in if t = [] then Some Zero
         else if take 2 t = js ''0x'' \<or> take 2 t = js ''0X''
         then map_option number_of_nat (radix_value 16 (drop 2 t))
         else if take 2 t = js ''0o'' \<or> take 2 t = js ''0O''
         then map_option number_of_nat (radix_value 8 (drop 2 t))
         else if take 2 t = js ''0b'' \<or> take 2 t = js ''0B''
         then map_option number_of_nat (radix_value 2 (drop 2 t))
         else if body = js ''Infinity'' then Some (Infinite negative)
         else map_option (\<lambda>(ds, n). make_number negative ds n) (decimal_literal body))"

text \<open>
  \<open>ArraySetLength\<close>: the number must be an integer below \<open>2^32\<close>, or else the
  assignment throws a RangeError.
\<close>

definition array_length_of_string :: "jsstring \<Rightarrow> nat option" where
  "array_length_of_string s =
     (case string_to_number s of
        None \<Rightarrow> None
      | Some Zero \<Rightarrow> Some 0
      | Some (Infinite negative) \<Rightarrow> None
      | Some (Finite negative ds n) \<Rightarrow>
          if \<not> negative \<and> int (length ds) \<le> n \<and> n \<le> 10
                \<and> digits_value ds * 10 ^ (nat n - length ds) < 2 ^ 32
          then Some (digits_value ds * 10 ^ (nat n - length ds))
          else None)"

text \<open>
  The host of the evaluations: these numbers, and prototypes that hold no property
  beside the setter \<open>__proto__\<close>, so that no lookup finds an inherited value (the
  values of type \<open>unit\<close> are never reached).  The inputs evaluated below read no
  inherited property: their path segments are own keys of the values they index.
\<close>

definition reference_host :: "(jsnumber, unit) host" where
  "reference_host =
     \<lparr>toNumber = number_of_token, numberToString = number_to_string, isFinite = is_finite,
        lengthNumber = number_of_nat, toArrayLength = array_length_of_string,
        inherited = (\<lambda>p k. None), hostGet = (\<lambda>h k. Inr None), hostIsObject = (\<lambda>h. False),
        hostSet = (\<lambda>h k v. None), holeValue = (\<lambda>i. JNull)\<rparr>"

section \<open>Auxiliary notions of the properties\<close>

text \<open>
  A reference is anchored in the document when the object or array it holds is the
  value of the document at its location.
\<close>

fun anchored :: "'n json \<Rightarrow> ('n, 'h) reference \<Rightarrow> bool" where
  "anchored obj (loc, Val (JObj ms)) = (value_at loc obj = Some (JObj ms))"
| "anchored obj (loc, Val (JArr xs)) = (value_at loc obj = Some (JArr xs))"
| "anchored obj (loc, v) = True"

text \<open>
  Two locations diverge when neither leads through the other: at some step they take
  different keys.
\<close>

fun diverge :: "jsstring list \<Rightarrow> jsstring list \<Rightarrow> bool" where
  "diverge [] ks' = False"
| "diverge (k # ks) [] = False"
| "diverge (k # ks) (k' # ks') = (if k = k' then diverge ks ks' else True)"

section \<open>Properties\<close>

subsection \<open>jsonPathToString\<close>

lemma js_append: "js (a @ b) = js a @ js b"
  by (simp add: js_def)

lemma bracketed_eq:
  "bracketed N seg = js ''['' @ segment_text N (quote_segment seg) @ js '']''"
  by (cases seg) simp_all

lemma join_brackets:
  "p \<noteq> [] \<Longrightarrow>
   js ''['' @ join (js '']['') (map (segment_text N) (map quote_segment p)) @ js '']''
     = concat (map (bracketed N) p)"
proof (induction p rule: induct_list012)
  case 1
  then show ?case by simp
next
  case (2 x)
  show ?case by (simp add: bracketed_eq)
next
  case (3 x y zs)
  have "js '']['' = js '']'' @ js ''[''"
    by (simp add: js_def)
  with 3 show ?case
    by (simp add: bracketed_eq)
qed

text \<open>
  C6: \<open>jsonPathToString\<close> equals the reference definition (\<open>$\<close> for an undefined or
  empty path, otherwise \<open>$[seg1][seg2]...\<close> with numbers bare and strings between
  double quotes, an embedded quote left as it is), and
  \<open>jsonPathToString(["customer", 0, "id"])\<close> is \<open>$["customer"][0]["id"]\<close>.
\<close>

theorem jsonPathToString_refines_spec:
  \<open>jsonPathToString N path = jsonPathToString_spec N path
   \<and> jsonPathToString N (Some [SegStr (js ''a"b'')]) = js ''$["a"b"]''
   \<and> jsonPathToString reference_host
         (Some [SegStr (js ''customer''), SegNum Zero, SegStr (js ''id'')])
       = js ''$["customer"][0]["id"]''\<close>
proof (intro conjI)
  show "jsonPathToString N path = jsonPathToString_spec N path"
  proof (cases path)
    case None
    then show ?thesis
      by (simp add: jsonPathToString_def jsonPathToString_spec_def)
  next
    case (Some p)
    show ?thesis
    proof (cases "p = []")
      case True
      with Some show ?thesis
        by (simp add: jsonPathToString_def jsonPathToString_spec_def)
    next
      case False
      from join_brackets [OF False, of N] Some False show ?thesis
        by (simp add: jsonPathToString_def jsonPathToString_spec_def js_append [symmetric]
            del: append_assoc)
           (simp add: js_def)
    qed
  qed
next
  show \<open>jsonPathToString N (Some [SegStr (js ''a"b'')]) = js ''$["a"b"]''\<close>
    by (simp add: jsonPathToString_def js_def)
next
  show \<open>jsonPathToString reference_host
          (Some [SegStr (js ''customer''), SegNum Zero, SegStr (js ''id'')])
        = js ''$["customer"][0]["id"]''\<close>
    by (simp add: jsonPathToString_def js_def reference_host_def)
qed

subsection \<open>Evaluation on concrete inputs\<close>

lemmas eval_defs =
  updateJsonAtPath_def update_body_def JSON_parse_def js_def idle_step_def is_whitespace_def
  is_digit_def string_step_def end_number_def is_exponent_mark_def literal_step_def
  own_entries_def array_index_def digits_value_def JSON_stringify_def block_def gap_def
  quote_def quote_unit_def is_high_surrogate_def is_low_surrogate_def assign_member_def
  proto_key_def

lemmas host_defs =
  reference_host_def number_of_token_def decimal_literal_def exponent_part_def make_number_def
  strip_zeros_def overflows_def underflows_def number_of_nat_def decimal.simps digit_unit_def
  Let_def

subsection \<open>Array indices are canonical\<close>

lemma digits_value_snoc: "digits_value (ks @ [c]) = 10 * digits_value ks + (unat c - 48)"
  by (simp add: digits_value_def)

lemma digit_bounds: "is_digit c \<Longrightarrow> 48 \<le> unat c \<and> unat c \<le> 57"
  unfolding is_digit_def word_le_nat_alt by simp

lemma digit_unit_of_digit: "is_digit c \<Longrightarrow> digit_unit (unat c - 48) = c"
  using digit_bounds [of c] by (simp add: digit_unit_def)

lemma digit_not_zero: "is_digit c \<Longrightarrow> c \<noteq> 48 \<Longrightarrow> 48 < unat c"
proof -
  assume a: "is_digit c" "c \<noteq> 48"
  have "unat c \<noteq> 48"
  proof
    assume "unat c = 48"
    then have "of_nat (unat c) = (of_nat 48 :: 16 word)" by simp
    then have "c = 48" by simp
    with a show False by simp
  qed
  with digit_bounds [OF a(1)] show ?thesis by arith
qed

lemma digits_value_pos:
  "ks \<noteq> [] \<Longrightarrow> is_digit (hd ks) \<Longrightarrow> hd ks \<noteq> 48 \<Longrightarrow> 0 < digits_value ks"
proof (induction ks rule: rev_induct)
  case Nil
  then show ?case by simp
next
  case (snoc c ks)
  show ?case
  proof (cases "ks = []")
    case True
    with snoc.prems have "is_digit c" "c \<noteq> 48" by simp_all
    then have "48 < unat c"
      by (rule digit_not_zero)
    with True show ?thesis
      by (simp add: digits_value_def)
  next
    case False
    with snoc show ?thesis
      by (simp add: digits_value_snoc)
  qed
qed

lemma decimal_digits_value:
  "ks \<noteq> [] \<Longrightarrow> list_all is_digit ks \<Longrightarrow> length ks = 1 \<or> hd ks \<noteq> 48
     \<Longrightarrow> decimal (digits_value ks) = ks"
proof (induction ks rule: rev_induct)
  case Nil
  then show ?case by simp
next
  case (snoc c ks)
  from snoc.prems have c: "is_digit c" by simp
  have d: "unat c - 48 < 10"
    using digit_bounds [OF c] by arith
  show ?case
  proof (cases "ks = []")
    case True
    have "decimal (unat c - 48) = [digit_unit (unat c - 48)]"
      using d by (subst decimal.simps) simp
    with True c show ?thesis
      by (simp add: digits_value_def digit_unit_of_digit)
  next
    case False
    with snoc.prems have canon: "list_all is_digit ks" "hd ks \<noteq> 48" "is_digit (hd ks)"
      by (auto simp: list_all_iff)
    with False snoc.IH have ih: "decimal (digits_value ks) = ks"
      by simp
    from False canon have pos: "0 < digits_value ks"
      by (simp add: digits_value_pos)
    have "decimal (10 * digits_value ks + (unat c - 48))
            = decimal (digits_value ks) @ [digit_unit (unat c - 48)]"
      using pos d by (subst decimal.simps) simp
    with ih c show ?thesis
      by (simp add: digits_value_snoc digit_unit_of_digit)
  qed
qed

lemma array_index_decimal: "array_index k = Some i \<Longrightarrow> k = decimal i"
  unfolding array_index_def
  by (auto simp: decimal_digits_value split: if_splits)

lemma array_index_inject: "array_index k = Some i \<Longrightarrow> array_index k' = Some i \<Longrightarrow> k = k'"
  using array_index_decimal by metis

subsection \<open>The walk stays inside the document\<close>

lemma value_at_append:
  "value_at (ks @ ks') v = (case value_at ks v of None \<Rightarrow> None | Some c \<Rightarrow> value_at ks' c)"
  by (induction ks v rule: value_at.induct) (auto split: option.splits)

lemma anchored_member:
  "value_at loc obj = Some (JObj ms) \<Longrightarrow> map_of ms k = Some d
     \<Longrightarrow> anchored obj (loc @ [k], Val d)"
  by (cases d) (simp_all add: value_at_append)

lemma anchored_element:
  "value_at loc obj = Some (JArr xs) \<Longrightarrow> array_index k = Some i \<Longrightarrow> i < length xs
     \<Longrightarrow> anchored obj (loc @ [k], Val (xs ! i))"
  by (cases "xs ! i") (simp_all add: value_at_append)

lemma anchored_found: "anchored obj (loc, found p)"
  by (cases p) simp_all

lemma get_property_anchored:
  "anchored obj cur \<Longrightarrow> get_property N cur k = Inr next \<Longrightarrow> anchored obj next"
proof (induction N cur k rule: get_property.induct)
  case (3 N loc ms k)
  then show ?case
    by (auto split: option.splits simp: anchored_member anchored_found)
next
  case (4 N loc xs k)
  then show ?case
    by (auto split: option.splits if_splits simp: anchored_element anchored_found)
qed (auto split: option.splits if_splits sum.splits simp: anchored_found)

lemma walk_anchored:
  "anchored obj cur \<Longrightarrow> walk N cur path = Inr final \<Longrightarrow> anchored obj final"
proof (induction path arbitrary: cur)
  case Nil
  then show ?case by simp
next
  case (Cons seg rest)
  then show ?case
    by (auto split: sum.splits dest: get_property_anchored)
qed

lemma anchored_root: "anchored obj ([], Val obj)"
  by (cases obj) simp_all

lemma reached_object:
  assumes "walk N ([], Val obj) path = Inr (loc, Val (JObj ms))"
  shows "value_at loc obj = Some (JObj ms)"
  using walk_anchored [OF anchored_root assms] by simp

lemma reached_array:
  assumes "walk N ([], Val obj) path = Inr (loc, Val (JArr xs))"
  shows "value_at loc obj = Some (JArr xs)"
  using walk_anchored [OF anchored_root assms] by simp

lemma write_at_same: "value_at loc obj = Some c \<Longrightarrow> write_at loc c obj = obj"
  by (induction loc obj rule: value_at.induct)
     (auto split: option.splits if_splits simp: update_triv)

lemma value_at_write_at:
  "value_at loc obj = Some c \<Longrightarrow> value_at loc (write_at loc new obj) = Some new"
  by (induction loc obj rule: value_at.induct)
     (auto split: option.splits if_splits simp: update_conv')

lemma write_at_frame:
  "value_at loc obj = Some c \<Longrightarrow> diverge loc loc'
     \<Longrightarrow> value_at loc' (write_at loc new obj) = value_at loc' obj"
proof (induction loc obj arbitrary: loc' rule: value_at.induct)
  case (1 v)
  then show ?case by simp
next
  case (2 k ks ms)
  from 2(3) obtain k' ks' where l: "loc' = k' # ks'"
    by (cases loc') auto
  from 2(2) obtain c0 where c0: "map_of ms k = Some c0" "value_at ks c0 = Some c"
    by (auto split: option.splits)
  show ?case
  proof (cases "k' = k")
    case True
    with 2(3) l have "diverge ks ks'" by simp
    with 2(1) c0 have "value_at ks' (write_at ks new c0) = value_at ks' c0"
      by simp
    with True l c0 show ?thesis
      by (simp add: update_conv')
  next
    case False
    with l c0 show ?thesis
      by (simp add: update_conv')
  qed
next
  case (3 k ks xs)
  from 3(3) obtain k' ks' where l: "loc' = k' # ks'"
    by (cases loc') auto
  from 3(2) obtain i where
    i: "array_index k = Some i" "i < length xs" "value_at ks (xs ! i) = Some c"
    by (auto split: option.splits if_splits)
  show ?case
  proof (cases "k' = k")
    case True
    with 3(3) l have "diverge ks ks'" by simp
    with 3(1) i have "value_at ks' (write_at ks new (xs ! i)) = value_at ks' (xs ! i)"
      by simp
    with True l i show ?thesis
      by simp
  next
    case False
    then have "array_index k' \<noteq> Some i"
      using i(1) array_index_inject by blast
    with l i show ?thesis
      by (auto split: option.splits)
  qed
qed simp_all

subsection \<open>The assignment of the entries\<close>

lemma is_object_value:
  "is_object N (Val c) = ((\<exists>ms. c = JObj ms) \<or> (\<exists>xs. c = JArr xs))"
  by (cases c) simp_all

lemma assign_entries_object:
  "assign_entries N (JObj ms) es
     = Inr (JObj (fold (\<lambda>(k, v) ms. assign_member ms k (JStr v)) es ms))"
  by (induction es arbitrary: ms) auto

lemma map_of_assign_member:
  "map_of (assign_member ms k v) k'
     = (if k' = k \<and> (k \<noteq> proto_key \<or> map_of ms k \<noteq> None) then Some v else map_of ms k')"
  by (auto simp: assign_member_def update_conv')

lemma map_of_fold_assign:
  "map_of (fold (\<lambda>(k, v) ms. assign_member ms k (f v)) es ms) k
     = (if k = proto_key \<and> map_of ms k = None then None
        else case map_of (rev es) k of None \<Rightarrow> map_of ms k | Some v \<Rightarrow> Some (f v))"
proof (induction es arbitrary: ms)
  case Nil
  then show ?case by auto
next
  case (Cons e es)
  obtain k0 v0 where e: "e = (k0, v0)"
    by (cases e)
  show ?case
    unfolding e
    by (auto simp: Cons.IH map_of_assign_member map_add_def split: option.splits)
qed

lemma set_own_entries: "set (own_entries ms) = set ms"
  by (auto simp: own_entries_def)

lemma distinct_own_entries: "distinct (map fst ms) \<Longrightarrow> distinct (map fst (own_entries ms))"
  unfolding own_entries_def
  by (auto simp: distinct_map_filter distinct_map inj_on_def)

lemma map_of_rev_distinct: "distinct (map fst es) \<Longrightarrow> map_of (rev es) = map_of es"
  by (rule ext)
     (metis distinct_rev map_of_eq_Some_iff map_of_eq_None_iff not_Some_eq rev_map set_rev)

lemma update_at_object:
  assumes parse: "JSON_parse N json = Some obj"
    and reach: "walk N ([], Val obj) path = Inr (loc, Val (JObj ms))"
  shows "updateJsonAtPath N json path newValues
           = Inr (JSON_stringify N
                    (write_at loc
                       (JObj (fold (\<lambda>(k, v) ms. assign_member ms k (JStr v))
                                (own_entries newValues) ms))
                       obj))"
  using parse reach
  by (simp add: updateJsonAtPath_def update_body_def assign_entries_object)

lemma updateJsonAtPath_returns: "\<exists>text. updateJsonAtPath N json path newValues = Inr text"
  by (simp add: updateJsonAtPath_def split: sum.splits)

lemma walk_failure_returns_json:
  "JSON_parse N json = Some obj \<Longrightarrow> walk N ([], Val obj) path = Inl e
     \<Longrightarrow> updateJsonAtPath N json path newValues = Inr json"
  by (simp add: updateJsonAtPath_def update_body_def)

lemma empty_update:
  assumes "JSON_parse N json = Some obj"
    and "walk N ([], Val obj) path = Inr (loc, target)"
  shows "updateJsonAtPath N json path [] = Inr (JSON_stringify N obj)"
proof (cases target)
  case Undefined
  with assms show ?thesis
    by (simp add: updateJsonAtPath_def update_body_def)
next
  case (Host h)
  with assms show ?thesis
    by (simp add: updateJsonAtPath_def update_body_def own_entries_def)
next
  case (Val c)
  show ?thesis
  proof (cases "is_object N target")
    case False
    with assms show ?thesis
      by (simp add: updateJsonAtPath_def update_body_def)
  next
    case True
    with Val consider ms where "c = JObj ms" | xs where "c = JArr xs"
      using is_object_value [of N c] by blast
    then show ?thesis
    proof cases
      case 1
      with assms(2) Val have "value_at loc obj = Some (JObj ms)"
        by (blast intro: reached_object)
      with assms 1 Val show ?thesis
        by (simp add: updateJsonAtPath_def update_body_def own_entries_def write_at_same)
    next
      case 2
      with assms(2) Val have "value_at loc obj = Some (JArr xs)"
        by (blast intro: reached_array)
      with assms 2 Val show ?thesis
        by (simp add: updateJsonAtPath_def update_body_def own_entries_def write_at_same)
    qed
  qed
qed

subsection \<open>updateJsonAtPath\<close>

text \<open>
  C1, as the code has it: for a text that parses and a path whose walk reaches an
  object of the document, \<open>updateJsonAtPath\<close> sets every entry of \<open>newValues\<close> (a
  mapping: its keys are distinct) on that object as a string, overwriting the member
  or adding it, except an entry whose key is \<open>__proto__\<close> when the object has no
  member of that name, which sets nothing; it keeps the other members, and returns the
  whole document serialised with an indent of two spaces, every value at a location
  that diverges from that of the object being as before;
  \<open>updateJsonAtPath('{"a":{"b":1}}', ["a"], {b: "2"})\<close> is the text
  \<open>{ "a": { "b": "2" } }\<close> laid out on five lines.
\<close>

theorem updateJsonAtPath_sets_entries:
  \<open>(JSON_parse N json = Some obj
      \<and> walk N ([], Val obj) path = Inr (loc, Val (JObj ms))
      \<and> distinct (map fst newValues)
    \<longrightarrow> value_at loc obj = Some (JObj ms)
        \<and> (\<exists>ms'. updateJsonAtPath N json path newValues
                    = Inr (JSON_stringify N (write_at loc (JObj ms') obj))
             \<and> value_at loc (write_at loc (JObj ms') obj) = Some (JObj ms')
             \<and> (\<forall>loc'. diverge loc loc'
                    \<longrightarrow> value_at loc' (write_at loc (JObj ms') obj) = value_at loc' obj)
             \<and> ms' = fold (\<lambda>(k, v) ms. assign_member ms k (JStr v)) (own_entries newValues) ms
             \<and> (\<forall>(k, v) \<in> set newValues.
                    k \<noteq> js ''__proto__'' \<or> map_of ms k \<noteq> None
                    \<longrightarrow> map_of ms' k = Some (JStr v))
             \<and> (\<forall>k. k \<notin> fst ` set newValues \<or> (k = js ''__proto__'' \<and> map_of ms k = None)
                    \<longrightarrow> map_of ms' k = map_of ms k)))
   \<and> updateJsonAtPath N (js ''{"a":{"b":1}}'') [SegStr (js ''a'')] [(js ''b'', js ''2'')]
       = Inr (js ''{\<newline>  "a": {\<newline>    "b": "2"\<newline>  }\<newline>}'')\<close>
proof (intro conjI impI)
  assume a: "JSON_parse N json = Some obj
      \<and> walk N ([], Val obj) path = Inr (loc, Val (JObj ms))
      \<and> distinct (map fst newValues)"
  then have at: "value_at loc obj = Some (JObj ms)"
    by (blast intro: reached_object)
  then show "value_at loc obj = Some (JObj ms)" .
  define ms' where
    "ms' = fold (\<lambda>(k, v) ms. assign_member ms k (JStr v)) (own_entries newValues) ms"
  have d: "distinct (map fst (own_entries newValues))"
    using a by (simp add: distinct_own_entries)
  have look: "map_of ms' k
      = (if k = proto_key \<and> map_of ms k = None then None
         else case map_of newValues k of None \<Rightarrow> map_of ms k | Some v \<Rightarrow> Some (JStr v))" for k
  proof -
    have "map_of (own_entries newValues) = map_of newValues"
      using a d by (intro map_of_inject_set [THEN iffD2]) (simp_all add: set_own_entries)
    then show ?thesis
      unfolding ms'_def
      by (auto simp: map_of_fold_assign map_of_rev_distinct [OF d] split: option.splits)
  qed
  have 1: "updateJsonAtPath N json path newValues
             = Inr (JSON_stringify N (write_at loc (JObj ms') obj))"
    using a unfolding ms'_def by (simp add: update_at_object)
  have 2: "value_at loc (write_at loc (JObj ms') obj) = Some (JObj ms')"
    using at by (rule value_at_write_at)
  have 5: "\<forall>loc'. diverge loc loc'
              \<longrightarrow> value_at loc' (write_at loc (JObj ms') obj) = value_at loc' obj"
    using at by (simp add: write_at_frame)
  have 3: "\<forall>(k, v) \<in> set newValues.
              k \<noteq> js ''__proto__'' \<or> map_of ms k \<noteq> None \<longrightarrow> map_of ms' k = Some (JStr v)"
    using a by (auto simp: look proto_key_def)
  have 4: "\<forall>k. k \<notin> fst ` set newValues \<or> (k = js ''__proto__'' \<and> map_of ms k = None)
              \<longrightarrow> map_of ms' k = map_of ms k"
    by (auto simp: look proto_key_def map_of_eq_None_iff [THEN iffD2])
  from 1 2 3 4 5 ms'_def
  show "\<exists>ms'. updateJsonAtPath N json path newValues
                    = Inr (JSON_stringify N (write_at loc (JObj ms') obj))
             \<and> value_at loc (write_at loc (JObj ms') obj) = Some (JObj ms')
             \<and> (\<forall>loc'. diverge loc loc'
                    \<longrightarrow> value_at loc' (write_at loc (JObj ms') obj) = value_at loc' obj)
             \<and> ms' = fold (\<lambda>(k, v) ms. assign_member ms k (JStr v)) (own_entries newValues) ms
             \<and> (\<forall>(k, v) \<in> set newValues.
                    k \<noteq> js ''__proto__'' \<or> map_of ms k \<noteq> None
                    \<longrightarrow> map_of ms' k = Some (JStr v))
             \<and> (\<forall>k. k \<notin> fst ` set newValues \<or> (k = js ''__proto__'' \<and> map_of ms k = None)
                    \<longrightarrow> map_of ms' k = map_of ms k)"
    by blast
next
  show \<open>updateJsonAtPath N (js ''{"a":{"b":1}}'') [SegStr (js ''a'')] [(js ''b'', js ''2'')]
       = Inr (js ''{\<newline>  "a": {\<newline>    "b": "2"\<newline>  }\<newline>}'')\<close>
    by (simp add: eval_defs)
qed

theorem updateJsonAtPath_sets_entries_witness:
  \<open>JSON_parse reference_host (js ''{"a":{"b":1},"c":[]}'')
     = Some (JObj [(js ''a'', JObj [(js ''b'', JNum (Finite False (js ''1'') 1))]),
                   (js ''c'', JArr [])])
   \<and> walk reference_host
        ([], Val (JObj [(js ''a'', JObj [(js ''b'', JNum (Finite False (js ''1'') 1))]),
                        (js ''c'', JArr [])]))
        [SegStr (js ''a'')]
     = Inr ([js ''a''], Val (JObj [(js ''b'', JNum (Finite False (js ''1'') 1))]))
   \<and> distinct (map fst [(js ''d'', js ''3''), (js ''b'', js ''2'')])
   \<and> value_at [js ''a'']
        (JObj [(js ''a'', JObj [(js ''b'', JNum (Finite False (js ''1'') 1))]),
               (js ''c'', JArr [])])
     = Some (JObj [(js ''b'', JNum (Finite False (js ''1'') 1))])
   \<and> updateJsonAtPath reference_host (js ''{"a":{"b":1},"c":[]}'') [SegStr (js ''a'')]
        [(js ''d'', js ''3''), (js ''b'', js ''2'')]
     = Inr (js ''{\<newline>  "a": {\<newline>    "b": "2",\<newline>    "d": "3"\<newline>  },\<newline>  "c": []\<newline>}'')\<close>
proof -
  let ?doc = "JObj [(js ''a'', JObj [(js ''b'', JNum (Finite False (js ''1'') 1))]),
                    (js ''c'', JArr [])]"
  have p: \<open>JSON_parse reference_host (js ''{"a":{"b":1},"c":[]}'') = Some ?doc\<close>
    by (simp add: eval_defs host_defs)
  have w: "walk reference_host ([], Val ?doc) [SegStr (js ''a'')]
             = Inr ([js ''a''], Val (JObj [(js ''b'', JNum (Finite False (js ''1'') 1))]))"
    by (simp add: js_def)
  have d: "distinct (map fst [(js ''d'', js ''3''), (js ''b'', js ''2'')])"
    by (simp add: js_def)
  note general =
    updateJsonAtPath_sets_entries
      [of reference_host \<open>js ''{"a":{"b":1},"c":[]}''\<close> ?doc "[SegStr (js ''a'')]"
          "[js ''a'']" "[(js ''b'', JNum (Finite False (js ''1'') 1))]"
          "[(js ''d'', js ''3''), (js ''b'', js ''2'')]",
       THEN conjunct1, THEN mp, OF conjI [OF p conjI [OF w d]]]
  have v: "value_at [js ''a''] ?doc = Some (JObj [(js ''b'', JNum (Finite False (js ''1'') 1))])"
    by (rule general [THEN conjunct1])
  have u: \<open>updateJsonAtPath reference_host (js ''{"a":{"b":1},"c":[]}'') [SegStr (js ''a'')]
        [(js ''d'', js ''3''), (js ''b'', js ''2'')]
     = Inr (js ''{\<newline>  "a": {\<newline>    "b": "2",\<newline>    "d": "3"\<newline>  },\<newline>  "c": []\<newline>}'')\<close>
    by (simp add: eval_defs host_defs)
  show ?thesis
    by (rule conjI [OF p conjI [OF w conjI [OF d conjI [OF v u]]]])
qed

text \<open>
  The claim as stated fails for the key \<open>__proto__\<close>: with the text \<open>{"a":1}\<close>,
  the empty path and the new values \<open>{"__proto__": "x"}\<close> the walk reaches the
  document, an object, and the result has no member \<open>__proto__\<close>; the assignment went
  to the setter inherited from \<open>Object.prototype\<close>, which ignores a string.
\<close>

theorem proto_key_not_set_counterexample:
  \<open>JSON_parse reference_host (js ''{"a":1}'')
     = Some (JObj [(js ''a'', JNum (Finite False (js ''1'') 1))])
   \<and> walk reference_host ([], Val (JObj [(js ''a'', JNum (Finite False (js ''1'') 1))])) []
     = Inr ([], Val (JObj [(js ''a'', JNum (Finite False (js ''1'') 1))]))
   \<and> updateJsonAtPath reference_host (js ''{"a":1}'') [] [(js ''__proto__'', js ''x'')]
     = Inr (js ''{\<newline>  "a": 1\<newline>}'')
   \<and> JSON_parse reference_host (js ''{\<newline>  "a": 1\<newline>}'')
     = Some (JObj [(js ''a'', JNum (Finite False (js ''1'') 1))])
   \<and> map_of [(js ''a'', JNum (Finite False (js ''1'') 1))] (js ''__proto__'') = None\<close>
  by (simp add: eval_defs host_defs)

text \<open>
  C2: for a text that is not valid JSON, whatever the path and the new values,
  \<open>updateJsonAtPath\<close> returns the text as it is and no exception reaches the caller;
  \<open>updateJsonAtPath('not json', [], {})\<close> is \<open>not json\<close>.
\<close>

theorem invalid_json_returned_unchanged:
  "(JSON_parse N json = None \<longrightarrow> updateJsonAtPath N json path newValues = Inr json)
   \<and> updateJsonAtPath N (js ''not json'') [] [] = Inr (js ''not json'')"
  by (simp add: updateJsonAtPath_def update_body_def)
     (simp add: eval_defs)

theorem invalid_json_returned_unchanged_witness:
  \<open>JSON_parse reference_host (js ''{"a":'') = None
   \<and> updateJsonAtPath reference_host (js ''{"a":'') [SegStr (js ''a'')] [(js ''b'', js ''2'')]
     = Inr (js ''{"a":'')\<close>
proof -
  have p: \<open>JSON_parse reference_host (js ''{"a":'') = None\<close>
    by (simp add: eval_defs)
  with invalid_json_returned_unchanged
         [of reference_host \<open>js ''{"a":''\<close> "[SegStr (js ''a'')]" "[(js ''b'', js ''2'')]"]
  show ?thesis by blast
qed




text \<open>
  C4, as the code has it: a segment applied to \<open>undefined\<close> or \<open>null\<close> makes the walk
  throw a TypeError, as for the text \<open>{"a":null}\<close> and the path \<open>a\<close>, \<open>b\<close>; the
  exception is caught inside \<open>updateJsonAtPath\<close>, which returns the original text.
  Every call returns a text: no exception reaches the caller.
\<close>

theorem walk_failure_is_caught:
  \<open>(JSON_parse N json = Some obj \<and> walk N ([], Val obj) path = Inl e
      \<longrightarrow> updateJsonAtPath N json path newValues = Inr json)
   \<and> (\<exists>text. updateJsonAtPath N json path newValues = Inr text)
   \<and> JSON_parse N (js ''{"a":null}'') = Some (JObj [(js ''a'', JNull)])
   \<and> walk N ([], Val (JObj [(js ''a'', JNull)])) [SegStr (js ''a''), SegStr (js ''b'')]
     = Inl TypeError
   \<and> updateJsonAtPath N (js ''{"a":null}'') [SegStr (js ''a''), SegStr (js ''b'')] newValues
     = Inr (js ''{"a":null}'')\<close>
proof (intro conjI impI)
  show "\<exists>text. updateJsonAtPath N json path newValues = Inr text"
    by (rule updateJsonAtPath_returns)
next
  assume "JSON_parse N json = Some obj \<and> walk N ([], Val obj) path = Inl e"
  then show "updateJsonAtPath N json path newValues = Inr json"
    by (simp add: walk_failure_returns_json)
next
  show p: \<open>JSON_parse N (js ''{"a":null}'') = Some (JObj [(js ''a'', JNull)])\<close>
    by (simp add: eval_defs)
  show w: "walk N ([], Val (JObj [(js ''a'', JNull)])) [SegStr (js ''a''), SegStr (js ''b'')]
             = Inl TypeError"
    by (simp add: js_def)
  from p w
  show \<open>updateJsonAtPath N (js ''{"a":null}'') [SegStr (js ''a''), SegStr (js ''b'')] newValues
     = Inr (js ''{"a":null}'')\<close>
    by (rule walk_failure_returns_json)
qed

theorem walk_failure_is_caught_witness:
  \<open>JSON_parse reference_host (js ''[null]'') = Some (JArr [JNull])
   \<and> walk reference_host ([], Val (JArr [JNull])) [SegNum Zero, SegStr (js ''k'')]
     = Inl TypeError
   \<and> updateJsonAtPath reference_host (js ''[null]'') [SegNum Zero, SegStr (js ''k'')]
        [(js ''b'', js ''2'')]
     = Inr (js ''[null]'')\<close>
proof -
  have p: \<open>JSON_parse reference_host (js ''[null]'') = Some (JArr [JNull])\<close>
    by (simp add: eval_defs)
  have w: "walk reference_host ([], Val (JArr [JNull])) [SegNum Zero, SegStr (js ''k'')]
             = Inl TypeError"
    by (simp add: reference_host_def array_index_def is_digit_def digits_value_def js_def)
  from walk_failure_is_caught
         [of reference_host \<open>js ''[null]''\<close> "JArr [JNull]" "[SegNum Zero, SegStr (js ''k'')]"
             TypeError "[(js ''b'', js ''2'')]"]
       p w
  show ?thesis by blast
qed

text \<open>
  The claim as stated fails: no host, text, path and new values make
  \<open>updateJsonAtPath\<close> throw.
\<close>

theorem unhandled_failure_counterexample:
  "\<not> (\<exists>(N :: (jsnumber, unit) host) json path newValues e.
         updateJsonAtPath N json path newValues = Inl e)"
  by (simp add: updateJsonAtPath_def split: sum.splits)

text \<open>
  C9, as the code has it: with no edited values, for a text that parses and a path
  whose walk reaches a non-null object, \<open>updateJsonAtPath\<close> returns the parsed
  document serialised with an indent of two spaces; so Save with no edited values
  stores that serialisation of the current document.  (Whether the result reads back
  as the same document is another matter: see the counterexample.)
\<close>

theorem empty_update_reserializes:
  "(JSON_parse N json = Some obj \<and> walk N ([], Val obj) path = Inr (loc, target)
      \<and> is_object N target
    \<longrightarrow> updateJsonAtPath N json path [] = Inr (JSON_stringify N obj))
   \<and> (selectedNode s = Some nodeData \<and> editedValues s = []
      \<and> JSON_parse N (contents s) = Some obj
      \<and> walk N ([], Val obj) (case node_path nodeData of None \<Rightarrow> [] | Some p \<Rightarrow> p)
          = Inr (loc, target)
      \<and> is_object N target
    \<longrightarrow> contents (handleSave N s) = JSON_stringify N obj
        \<and> hasChanges (handleSave N s) \<and> \<not> isEditing (handleSave N s))"
proof (intro conjI impI)
  assume "JSON_parse N json = Some obj \<and> walk N ([], Val obj) path = Inr (loc, target)
      \<and> is_object N target"
  then show "updateJsonAtPath N json path [] = Inr (JSON_stringify N obj)"
    by (blast intro: empty_update)
next
  assume a: "selectedNode s = Some nodeData \<and> editedValues s = []
      \<and> JSON_parse N (contents s) = Some obj
      \<and> walk N ([], Val obj) (case node_path nodeData of None \<Rightarrow> [] | Some p \<Rightarrow> p)
          = Inr (loc, target)
      \<and> is_object N target"
  then have "updateJsonAtPath N (contents s)
                  (case node_path nodeData of None \<Rightarrow> [] | Some p \<Rightarrow> p) []
                = Inr (JSON_stringify N obj)"
    by (blast intro: empty_update)
  with a have u: "updateJsonAtPath N (contents s)
                  (case node_path nodeData of None \<Rightarrow> [] | Some p \<Rightarrow> p) (editedValues s)
                = Inr (JSON_stringify N obj)"
    by simp
  with a show "contents (handleSave N s) = JSON_stringify N obj"
    by (simp add: handleSave_def Let_def setSelectedNode_def setContents_def kept_state_def)
  from a u show "hasChanges (handleSave N s)"
    by (simp add: handleSave_def Let_def setSelectedNode_def setContents_def kept_state_def)
  from a u show "\<not> isEditing (handleSave N s)"
    by (simp add: handleSave_def Let_def setSelectedNode_def setContents_def kept_state_def)
qed

theorem empty_update_reserializes_witness:
  \<open>JSON_parse reference_host (js ''{"b":[true,{}],"1":"x"}'')
     = Some (JObj [(js ''b'', JArr [JBool True, JObj []]), (js ''1'', JStr (js ''x''))])
   \<and> walk reference_host
        ([], Val (JObj [(js ''b'', JArr [JBool True, JObj []]), (js ''1'', JStr (js ''x''))]))
        [SegStr (js ''b''), SegNum (Finite False (js ''1'') 1)]
     = Inr ([js ''b'', js ''1''], Val (JObj []))
   \<and> is_object reference_host (Val (JObj []))
   \<and> updateJsonAtPath reference_host (js ''{"b":[true,{}],"1":"x"}'')
        [SegStr (js ''b''), SegNum (Finite False (js ''1'') 1)] []
     = Inr (js ''{\<newline>  "1": "x",\<newline>  "b": [\<newline>    true,\<newline>    {}\<newline>  ]\<newline>}'')
   \<and> contents
       (handleSave reference_host
         \<lparr>selectedNode =
            Some \<lparr>node_text = [],
                  node_path = Some [SegStr (js ''b''), SegNum (Finite False (js ''1'') 1)]\<rparr>,
          contents = js ''{"b":[true,{}],"1":"x"}'', format = (), hasChanges = False,
          skipUpdate = False, isEditing = True, editedValues = []\<rparr>)
     = js ''{\<newline>  "1": "x",\<newline>  "b": [\<newline>    true,\<newline>    {}\<newline>  ]\<newline>}''\<close>
proof -
  let ?doc = "JObj [(js ''b'', JArr [JBool True, JObj []]), (js ''1'', JStr (js ''x''))]
                :: jsnumber json"
  let ?path = "[SegStr (js ''b''), SegNum (Finite False (js ''1'') 1)]"
  let ?node = "\<lparr>node_text = [] :: jsnumber scalar row list, node_path = Some ?path\<rparr>"
  let ?s = \<open>\<lparr>selectedNode = Some ?node,
             contents = js ''{"b":[true,{}],"1":"x"}'', format = (), hasChanges = False,
             skipUpdate = False, isEditing = True, editedValues = []\<rparr>\<close>
  have p: \<open>JSON_parse reference_host (js ''{"b":[true,{}],"1":"x"}'') = Some ?doc\<close>
    by (simp add: eval_defs)
  have w: "walk reference_host ([], Val ?doc) ?path = Inr ([js ''b'', js ''1''], Val (JObj []))"
    by (simp add: reference_host_def array_index_def is_digit_def digits_value_def js_def)
  have t: "is_object reference_host (Val (JObj []))"
    by simp
  have s: \<open>JSON_stringify reference_host ?doc
             = js ''{\<newline>  "1": "x",\<newline>  "b": [\<newline>    true,\<newline>    {}\<newline>  ]\<newline>}''\<close>
    by (simp add: eval_defs)
  note general =
    empty_update_reserializes
      [of reference_host \<open>js ''{"b":[true,{}],"1":"x"}''\<close> ?doc ?path
          "[js ''b'', js ''1'']" "Val (JObj [])" ?s ?node]
  have u: \<open>updateJsonAtPath reference_host (js ''{"b":[true,{}],"1":"x"}'') ?path []
             = Inr (JSON_stringify reference_host ?doc)\<close>
    by (rule general [THEN conjunct1, THEN mp, OF conjI [OF p conjI [OF w t]]])
  have "contents (handleSave reference_host ?s) = JSON_stringify reference_host ?doc"
    using general [THEN conjunct2] p w t by simp
  then have c: \<open>contents (handleSave reference_host ?s)
             = js ''{\<newline>  "1": "x",\<newline>  "b": [\<newline>    true,\<newline>    {}\<newline>  ]\<newline>}''\<close>
    by (simp only: s)
  show ?thesis
    by (rule conjI [OF p conjI [OF w conjI [OF t conjI [OF u [unfolded s] c]]]])
qed

text \<open>
  The claim as stated fails where it calls the result semantically identical to the
  input: in the text \<open>{"a":1e999}\<close> the number is too large for a double and reads
  as infinity, which \<open>JSON.stringify\<close> writes as \<open>null\<close>; the result reads back as
  a document whose member \<open>a\<close> is \<open>null\<close>, not a number.
\<close>

theorem infinite_number_counterexample:
  \<open>JSON_parse reference_host (js ''{"a":1e999}'')
     = Some (JObj [(js ''a'', JNum (Infinite False))])
   \<and> walk reference_host ([], Val (JObj [(js ''a'', JNum (Infinite False))])) []
     = Inr ([], Val (JObj [(js ''a'', JNum (Infinite False))]))
   \<and> is_object reference_host (Val (JObj [(js ''a'', JNum (Infinite False))]))
   \<and> updateJsonAtPath reference_host (js ''{"a":1e999}'') [] []
     = Inr (js ''{\<newline>  "a": null\<newline>}'')
   \<and> JSON_parse reference_host (js ''{\<newline>  "a": null\<newline>}'')
     = Some (JObj [(js ''a'', JNull)])
   \<and> JSON_parse reference_host (js ''{\<newline>  "a": null\<newline>}'')
     \<noteq> JSON_parse reference_host (js ''{"a":1e999}'')\<close>
  by (simp add: eval_defs host_defs)

subsection \<open>normalizeNodeData\<close>

lemma truthy_iff: "truthy k = (k \<noteq> None \<and> k \<noteq> Some [])"
  by (cases k) simp_all

lemma rows_object_eq_mapping:
  "\<forall>r \<in> set rows. is_scalar_row r \<longrightarrow> row_key r \<noteq> Some proto_key \<Longrightarrow>
   fold (\<lambda>r obj.
           if row_type r \<noteq> js ''array'' \<and> row_type r \<noteq> js ''object''
           then (if truthy (row_key r)
                 then assign_scalar obj (the (row_key r)) (row_value r)
                 else obj)
           else obj) rows (prototyped, acc)
     = (prototyped,
        fold (\<lambda>r. AList.update (the (row_key r)) (row_value r))
          (filter (\<lambda>r. is_scalar_row r \<and> row_key r \<noteq> None \<and> row_key r \<noteq> Some []) rows) acc)"
proof (induction rows arbitrary: acc)
  case Nil
  then show ?case by simp
next
  case (Cons r rows)
  from Cons.prems have rest: "\<forall>r \<in> set rows. is_scalar_row r \<longrightarrow> row_key r \<noteq> Some proto_key"
    by simp
  from Cons.prems have key: "is_scalar_row r \<longrightarrow> row_key r \<noteq> Some proto_key"
    by simp
  show ?case
  proof (cases "is_scalar_row r \<and> truthy (row_key r)")
    case True
    with key obtain k where k: "row_key r = Some k" "k \<noteq> proto_key" "k \<noteq> []"
      by (cases "row_key r") auto
    with True show ?thesis
      by (simp add: Cons.IH [OF rest] is_scalar_row_def)
  next
    case False
    then show ?thesis
      by (auto simp: Cons.IH [OF rest] is_scalar_row_def truthy_iff)
  qed
qed

text \<open>
  C5, as the code has it: on rows none of which has a type other than \<open>array\<close> and
  \<open>object\<close> together with the key \<open>__proto__\<close>, \<open>normalizeNodeData\<close> equals the
  reference definition in which a key that is the empty string counts as no key:
  \<open>{}\<close> for an empty or undefined row sequence; the value as text for exactly one
  row that has no key or the empty key; otherwise the serialised mapping of the rows
  whose type is neither \<open>array\<close> nor \<open>object\<close> and whose key is present and not
  empty.
\<close>

theorem normalizeNodeData_refines_amended:
  "(\<forall>r \<in> set (case nodeRows of None \<Rightarrow> [] | Some rows \<Rightarrow> rows).
       is_scalar_row r \<longrightarrow> row_key r \<noteq> Some (js ''__proto__''))
   \<longrightarrow> normalizeNodeData N nodeRows = normalizeNodeData_amended N nodeRows"
proof (cases nodeRows)
  case None
  then show ?thesis
    by (simp add: normalizeNodeData_def normalizeNodeData_amended_def)
next
  case (Some rows)
  show ?thesis
  proof (cases rows)
    case Nil
    with Some show ?thesis
      by (simp add: normalizeNodeData_def normalizeNodeData_amended_def)
  next
    case (Cons r rs)
    show ?thesis
    proof
      assume "\<forall>r \<in> set (case nodeRows of None \<Rightarrow> [] | Some rows \<Rightarrow> rows).
                is_scalar_row r \<longrightarrow> row_key r \<noteq> Some (js ''__proto__'')"
      with Some have "\<forall>r \<in> set rows. is_scalar_row r \<longrightarrow> row_key r \<noteq> Some proto_key"
        by (simp add: proto_key_def)
      then have "fold (\<lambda>r obj.
                    if row_type r \<noteq> js ''array'' \<and> row_type r \<noteq> js ''object''
                    then (if truthy (row_key r)
                          then assign_scalar obj (the (row_key r)) (row_value r)
                          else obj)
                    else obj) rows (True, [])
            = (True, mapping_of_rows
                (filter (\<lambda>r. is_scalar_row r \<and> row_key r \<noteq> None \<and> row_key r \<noteq> Some []) rows))"
        unfolding mapping_of_rows_def by (rule rows_object_eq_mapping)
      with Some Cons show "normalizeNodeData N nodeRows = normalizeNodeData_amended N nodeRows"
        by (auto simp: normalizeNodeData_def normalizeNodeData_amended_def truthy_iff)
    qed
  qed
qed

theorem normalizeNodeData_refines_amended_witness:
  \<open>normalizeNodeData reference_host
       (Some [\<lparr>row_key = Some (js ''a''), row_value = VNum (Finite False (js ''15'') 1),
                row_type = js ''number''\<rparr>,
              \<lparr>row_key = Some (js ''b''), row_value = VUndefined, row_type = js ''object''\<rparr>,
              \<lparr>row_key = Some [], row_value = VBool True, row_type = js ''boolean''\<rparr>])
     = js ''{\<newline>  "a": 1.5\<newline>}''\<close>
proof -
  let ?rows = "[\<lparr>row_key = Some (js ''a''), row_value = VNum (Finite False (js ''15'') 1),
                  row_type = js ''number''\<rparr>,
                \<lparr>row_key = Some (js ''b''), row_value = VUndefined, row_type = js ''object''\<rparr>,
                \<lparr>row_key = Some [], row_value = VBool True, row_type = js ''boolean''\<rparr>]"
  have h: "\<forall>r \<in> set ?rows. is_scalar_row r \<longrightarrow> row_key r \<noteq> Some (js ''__proto__'')"
    by (simp add: js_def)
  then have "\<forall>r \<in> set (case Some ?rows of None \<Rightarrow> [] | Some rows \<Rightarrow> rows).
               is_scalar_row r \<longrightarrow> row_key r \<noteq> Some (js ''__proto__'')"
    by (simp only: option.case)
  then have "normalizeNodeData reference_host (Some ?rows)
               = normalizeNodeData_amended reference_host (Some ?rows)"
    by (rule normalizeNodeData_refines_amended [of "Some ?rows" reference_host, THEN mp])
  also have \<open>\<dots> = js ''{\<newline>  "a": 1.5\<newline>}''\<close>
    by (simp add: normalizeNodeData_amended_def is_scalar_row_def mapping_of_rows_def
        stringify_scalars_def List.map_filter_def JSON_stringify_def own_entries_def
        array_index_def block_def gap_def quote_def quote_unit_def is_high_surrogate_def
        is_low_surrogate_def js_def reference_host_def)
  finally show ?thesis .
qed

text \<open>
  The reference definition as stated differs from the code on a single row whose key
  is the empty string: the code returns the value \<open>x\<close>, the reference definition the
  object with the member \<open>"": "x"\<close>.  It differs also on a row with the key
  \<open>__proto__\<close>: the assignment goes to the setter inherited from
  \<open>Object.prototype\<close> and the object gets no member.
\<close>

theorem normalizeNodeData_empty_key_counterexample:
  \<open>normalizeNodeData reference_host
      (Some [\<lparr>row_key = Some [], row_value = VStr (js ''x''), row_type = js ''string''\<rparr>])
     = js ''x''
   \<and> normalizeNodeData_spec reference_host
      (Some [\<lparr>row_key = Some [], row_value = VStr (js ''x''), row_type = js ''string''\<rparr>])
     = js ''{\<newline>  "": "x"\<newline>}''
   \<and> normalizeNodeData reference_host
      (Some [\<lparr>row_key = Some (js ''a''), row_value = VStr (js ''x''), row_type = js ''string''\<rparr>,
             \<lparr>row_key = Some (js ''__proto__''), row_value = VStr (js ''y''),
               row_type = js ''string''\<rparr>])
     = js ''{\<newline>  "a": "x"\<newline>}''
   \<and> normalizeNodeData_spec reference_host
      (Some [\<lparr>row_key = Some (js ''a''), row_value = VStr (js ''x''), row_type = js ''string''\<rparr>,
             \<lparr>row_key = Some (js ''__proto__''), row_value = VStr (js ''y''),
               row_type = js ''string''\<rparr>])
     = js ''{\<newline>  "a": "x",\<newline>  "__proto__": "y"\<newline>}''\<close>
  by (simp add: normalizeNodeData_def normalizeNodeData_spec_def is_scalar_row_def
      mapping_of_rows_def stringify_scalars_def List.map_filter_def JSON_stringify_def
      own_entries_def array_index_def block_def gap_def quote_def quote_unit_def
      is_high_surrogate_def is_low_surrogate_def js_def proto_key_def is_digit_def
      digits_value_def)

subsection \<open>The modal component\<close>

lemma handleSave_selectedNode:
  "selectedNode s = Some nodeData \<Longrightarrow>
   selectedNode (handleSave N s) = Some (updatedNode N (editedValues s) nodeData)"
  using updateJsonAtPath_returns
    [of N "contents s" "case node_path nodeData of None \<Rightarrow> [] | Some p \<Rightarrow> p" "editedValues s"]
  by (auto simp: handleSave_def Let_def setSelectedNode_def setContents_def kept_state_def)

text \<open>
  What Save stores for a row: a row whose type is neither \<open>array\<close> nor \<open>object\<close>,
  whose key is present and not the empty string, and for which the lookup in the
  edited values finds an own or an inherited property, takes what the lookup found;
  any other row is kept; the path and every other attribute of the node are kept.
\<close>

lemma save_rows:
  "selectedNode s = Some nodeData \<Longrightarrow>
   \<exists>node. selectedNode (handleSave N s) = Some node
      \<and> node_text node
          = map (\<lambda>r. if is_scalar_row r \<and> row_key r \<noteq> None \<and> row_key r \<noteq> Some []
                          \<and> edited_value N (editedValues s) (the (row_key r)) \<noteq> None
                       then \<lparr>row_key = row_key r,
                             row_value = the (edited_value N (editedValues s) (the (row_key r))),
                             row_type = row_type r\<rparr>
                       else kept_row r)
              (node_text nodeData)
      \<and> node_path node = node_path nodeData
      \<and> node_data.more node = node_data.more nodeData"
  by (simp add: handleSave_selectedNode updatedNode_def updatedText_def is_scalar_row_def
      truthy_iff)

text \<open>
  C7 fails in the code for a row whose key is the empty string.  The input of such a
  row is bound to that key (\<open>row.key ?? ...\<close> keeps the empty string), so an edit
  stores an entry for it; on Save the test \<open>row.key\<close> is false for the empty string
  and the row keeps its value \<open>x\<close>, where the claim has it replaced by the entry
  \<open>y\<close>, while the document is updated to \<open>y\<close>.
\<close>

theorem save_keeps_row_with_empty_key:
  \<open>editedValues
      (handleEditChange [] (js ''y'')
        (clickEdit reference_host
          \<lparr>selectedNode =
             Some \<lparr>node_text =
                     [\<lparr>row_key = Some [], row_value = VStr (js ''x''), row_type = js ''string''\<rparr>],
                   node_path = Some []\<rparr>,
           contents = js ''{"":"x"}'', format = (), hasChanges = False, skipUpdate = False,
           isEditing = False, editedValues = []\<rparr>))
     = [([], js ''y'')]
   \<and> selectedNode
      (handleSave reference_host
        (handleEditChange [] (js ''y'')
          (clickEdit reference_host
            \<lparr>selectedNode =
               Some \<lparr>node_text =
                       [\<lparr>row_key = Some [], row_value = VStr (js ''x''), row_type = js ''string''\<rparr>],
                     node_path = Some []\<rparr>,
             contents = js ''{"":"x"}'', format = (), hasChanges = False, skipUpdate = False,
             isEditing = False, editedValues = []\<rparr>)))
     = Some \<lparr>node_text =
               [\<lparr>row_key = Some [], row_value = Scalar (VStr (js ''x'')),
                  row_type = js ''string''\<rparr>],
             node_path = Some []\<rparr>
   \<and> contents
      (handleSave reference_host
        (handleEditChange [] (js ''y'')
          (clickEdit reference_host
            \<lparr>selectedNode =
               Some \<lparr>node_text =
                       [\<lparr>row_key = Some [], row_value = VStr (js ''x''), row_type = js ''string''\<rparr>],
                     node_path = Some []\<rparr>,
             contents = js ''{"":"x"}'', format = (), hasChanges = False, skipUpdate = False,
             isEditing = False, editedValues = []\<rparr>)))
     = js ''{\<newline>  "": "y"\<newline>}''\<close>
  by (simp add: handleSave_def handleEditChange_def clickEdit_def effect_def initialValues_def
      updatedNode_def updatedText_def kept_row_def kept_state_def setSelectedNode_def
      setContents_def Let_def eval_defs)

lemma fold_edits_preserve:
  assumes "\<And>k v s. g (handleEditChange k v s) = g s"
  shows "g (fold (\<lambda>(k, v). handleEditChange k v) edits s) = g s"
  by (induction edits arbitrary: s) (simp_all add: assms split_def)

lemma fold_edits_contents:
  "contents (fold (\<lambda>(k, v). handleEditChange k v) edits s) = contents s"
  by (rule fold_edits_preserve) (simp add: handleEditChange_def)

lemma fold_edits_format:
  "format (fold (\<lambda>(k, v). handleEditChange k v) edits s) = format s"
  by (rule fold_edits_preserve) (simp add: handleEditChange_def)

lemma fold_edits_hasChanges:
  "hasChanges (fold (\<lambda>(k, v). handleEditChange k v) edits s) = hasChanges s"
  by (rule fold_edits_preserve) (simp add: handleEditChange_def)

lemma fold_edits_skipUpdate:
  "skipUpdate (fold (\<lambda>(k, v). handleEditChange k v) edits s) = skipUpdate s"
  by (rule fold_edits_preserve) (simp add: handleEditChange_def)

lemma fold_edits_selectedNode:
  "selectedNode (fold (\<lambda>(k, v). handleEditChange k v) edits s) = selectedNode s"
  by (rule fold_edits_preserve) (simp add: handleEditChange_def)

lemma clickEdit_stores:
  "contents (clickEdit N s) = contents s \<and> format (clickEdit N s) = format s
   \<and> hasChanges (clickEdit N s) = hasChanges s \<and> skipUpdate (clickEdit N s) = skipUpdate s
   \<and> selectedNode (clickEdit N s) = selectedNode s"
  by (simp add: clickEdit_def effect_def split: option.splits)

text \<open>
  C8: Cancel leaves the edit mode and discards the edited values, and writes to
  neither store: after entering the edit mode, any sequence of changes to the edited
  values and Cancel, the document, its format and changed flag in the file store and
  the selected node in the graph store are what they were before.
\<close>

theorem cancel_discards_edits_and_writes_nothing:
  "\<not> isEditing (handleCancel (fold (\<lambda>(k, v). handleEditChange k v) edits (clickEdit N s)))
   \<and> editedValues (handleCancel (fold (\<lambda>(k, v). handleEditChange k v) edits (clickEdit N s))) = []
   \<and> contents (handleCancel (fold (\<lambda>(k, v). handleEditChange k v) edits (clickEdit N s)))
     = contents s
   \<and> format (handleCancel (fold (\<lambda>(k, v). handleEditChange k v) edits (clickEdit N s)))
     = format s
   \<and> hasChanges (handleCancel (fold (\<lambda>(k, v). handleEditChange k v) edits (clickEdit N s)))
     = hasChanges s
   \<and> skipUpdate (handleCancel (fold (\<lambda>(k, v). handleEditChange k v) edits (clickEdit N s)))
     = skipUpdate s
   \<and> selectedNode (handleCancel (fold (\<lambda>(k, v). handleEditChange k v) edits (clickEdit N s)))
     = selectedNode s"
  by (simp add: handleCancel_def fold_edits_contents fold_edits_format fold_edits_hasChanges
      fold_edits_skipUpdate fold_edits_selectedNode clickEdit_stores)

lemma initialValues_keyless:
  "\<forall>r \<in> set rows. is_scalar_row r \<longrightarrow> row_key r = None \<Longrightarrow>
   fold (\<lambda>r vals.
           if row_type r \<noteq> js ''array'' \<and> row_type r \<noteq> js ''object'' \<and> truthy (row_key r)
           then assign_member vals (the (row_key r))
                  (to_string N
                     (if row_value r = VNull \<or> row_value r = VUndefined then VStr []
                      else row_value r))
           else vals)
     rows acc = acc"
  by (induction rows arbitrary: acc) (auto simp: is_scalar_row_def)

text \<open>
  C10: the rows that enable the Edit button are all the rows whose type is neither
  \<open>array\<close> nor \<open>object\<close>, with or without a key; so for a node that has such rows,
  all of them without a key, the button is enabled, and entering the edit mode leaves
  the edited values empty, since the initialisation skips a row without a key.
\<close>

theorem edit_enabled_for_keyless_rows:
  "editableRows nodeData = filter is_scalar_row (node_text nodeData)
   \<and> (selectedNode s = Some nodeData
        \<and> (\<exists>r \<in> set (node_text nodeData). is_scalar_row r)
        \<and> (\<forall>r \<in> set (node_text nodeData). is_scalar_row r \<longrightarrow> row_key r = None)
      \<longrightarrow> \<not> edit_disabled nodeData
          \<and> isEditing (clickEdit N s)
          \<and> editedValues (clickEdit N s) = [])"
proof (intro conjI impI)
  show "editableRows nodeData = filter is_scalar_row (node_text nodeData)"
    by (simp add: editableRows_def is_scalar_row_def [abs_def])
next
  assume a: "selectedNode s = Some nodeData
        \<and> (\<exists>r \<in> set (node_text nodeData). is_scalar_row r)
        \<and> (\<forall>r \<in> set (node_text nodeData). is_scalar_row r \<longrightarrow> row_key r = None)"
  then show "\<not> edit_disabled nodeData"
    by (auto simp: edit_disabled_def editableRows_def is_scalar_row_def filter_empty_conv)
  from a show "isEditing (clickEdit N s)"
    by (simp add: clickEdit_def effect_def)
  from a show "editedValues (clickEdit N s) = []"
    by (simp add: clickEdit_def effect_def initialValues_def initialValues_keyless)
qed

theorem edit_enabled_for_keyless_rows_witness:
  \<open>\<not> edit_disabled
        \<lparr>node_text =
           [\<lparr>row_key = None, row_value = VNum (Finite False (js ''1'') 1),
               row_type = js ''number''\<rparr>,
            \<lparr>row_key = None, row_value = VStr (js ''x''), row_type = js ''string''\<rparr>,
            \<lparr>row_key = Some (js ''c''), row_value = VNum (Finite False (js ''2'') 1),
               row_type = js ''array''\<rparr>],
         node_path = Some [SegNum Zero]\<rparr>
   \<and> editedValues
       (clickEdit reference_host
         \<lparr>selectedNode =
            Some \<lparr>node_text =
                    [\<lparr>row_key = None, row_value = VNum (Finite False (js ''1'') 1),
               row_type = js ''number''\<rparr>,
                     \<lparr>row_key = None, row_value = VStr (js ''x''), row_type = js ''string''\<rparr>,
                     \<lparr>row_key = Some (js ''c''), row_value = VNum (Finite False (js ''2'') 1),
               row_type = js ''array''\<rparr>],
                  node_path = Some [SegNum Zero]\<rparr>,
          contents = js ''[[1,"x",[]]]'', format = (), hasChanges = False, skipUpdate = False,
          isEditing = False, editedValues = []\<rparr>)
     = []\<close>
  using edit_enabled_for_keyless_rows
    [of \<open>\<lparr>node_text =
             [\<lparr>row_key = None, row_value = VNum (Finite False (js ''1'') 1),
               row_type = js ''number''\<rparr>,
              \<lparr>row_key = None, row_value = VStr (js ''x''), row_type = js ''string''\<rparr>,
              \<lparr>row_key = Some (js ''c''), row_value = VNum (Finite False (js ''2'') 1),
               row_type = js ''array''\<rparr>],
           node_path = Some [SegNum Zero]\<rparr>\<close>
        \<open>\<lparr>selectedNode =
            Some \<lparr>node_text =
                    [\<lparr>row_key = None, row_value = VNum (Finite False (js ''1'') 1),
               row_type = js ''number''\<rparr>,
                     \<lparr>row_key = None, row_value = VStr (js ''x''), row_type = js ''string''\<rparr>,
                     \<lparr>row_key = Some (js ''c''), row_value = VNum (Finite False (js ''2'') 1),
               row_type = js ''array''\<rparr>],
                  node_path = Some [SegNum Zero]\<rparr>,
          contents = js ''[[1,"x",[]]]'', format = (), hasChanges = False, skipUpdate = False,
          isEditing = False, editedValues = []\<rparr>\<close>
        reference_host]
  by (simp add: is_scalar_row_def js_def)

end
